theory Spec2Isabelle
  imports Complex_Main "HOL-Library.Word" "HOL-Library.Log_Nat"
begin

section \<open>The decision tree command-line program\<close>

text \<open>
  A shallow embedding of \<^verbatim>\<open>src/mlpack/methods/decision_tree/decision_tree_main.cpp\<close>:
  the wrapper class \<^verbatim>\<open>DecisionTreeModel\<close> and the function \<^verbatim>\<open>mlpackMain\<close>.
  The parameter store \<^verbatim>\<open>CLI\<close> is a record, a fatal log message or a failed
  library check is an error value, and the messages written to \<^verbatim>\<open>Log::Info\<close> and
  \<^verbatim>\<open>Log::Warn\<close> are collected in a list.
\<close>

subsection \<open>Numbers, matrices, messages and errors\<close>

text \<open>\<^verbatim>\<open>size_t\<close> and \<^verbatim>\<open>arma::uword\<close> are 64-bit unsigned, \<^verbatim>\<open>int\<close> is 32-bit signed.\<close>

type_synonym uword = "64 word"
type_synonym cint = "32 word"

text \<open>
  A \<^verbatim>\<open>double\<close> is a real number, an infinity or a NaN; the two zeros are not
  told apart.  A comparison with a NaN is false.
\<close>

datatype double = Finite real | PosInf | NegInf | NaN

fun double_less :: "double \<Rightarrow> double \<Rightarrow> bool" where
  "double_less NaN y = False"
| "double_less x NaN = False"
| "double_less (Finite a) (Finite b) = (a < b)"
| "double_less (Finite a) PosInf = True"
| "double_less (Finite a) NegInf = False"
| "double_less NegInf (Finite b) = True"
| "double_less NegInf PosInf = True"
| "double_less NegInf NegInf = False"
| "double_less PosInf y = False"

text \<open>
  Arithmetic on doubles is that of IEEE 754 binary64: the exact result is rounded
  to the nearest double, a tie to the one with the even significand.
  \<open>binary_exponent a\<close> is the \<open>e\<close> with \<open>2 ^ e \<le> a < 2 ^ (e + 1)\<close> for a positive
  \<open>a\<close>; a double has 53 significant bits, exponents from -1022 (below that the
  spacing stays \<open>2 ^ - 1074\<close>) to 1023, and what rounds to \<open>2 ^ 1024\<close> or more
  is an infinity.
\<close>

definition binary_exponent :: "real \<Rightarrow> int" where
  "binary_exponent a =
     (if 1 \<le> a then int (floorlog 2 (nat \<lfloor>a\<rfloor>)) - 1
      else - int (floorlog 2 (nat \<lceil>1 / a\<rceil> - 1)))"

definition round_even :: "real \<Rightarrow> int" where
  "round_even s =
     (if s - of_int \<lfloor>s\<rfloor> < 1 / 2 then \<lfloor>s\<rfloor>
      else if 1 / 2 < s - of_int \<lfloor>s\<rfloor> then \<lfloor>s\<rfloor> + 1
      else if even \<lfloor>s\<rfloor> then \<lfloor>s\<rfloor> else \<lfloor>s\<rfloor> + 1)"

definition round_double :: "real \<Rightarrow> double" where
  "round_double x =
     (if x = 0 then Finite 0
      else
        let e = max (binary_exponent \<bar>x\<bar>) (- 1022);
            m = round_even (\<bar>x\<bar> / 2 powi (e - 52))
        in if 1024 \<le> e \<or> (e = 1023 \<and> m = 2 ^ 53) then (if 0 < x then PosInf else NegInf)
           else Finite (if 0 < x then of_int m * 2 powi (e - 52)
                        else - (of_int m * 2 powi (e - 52))))"

text \<open>\<^verbatim>\<open>double(n)\<close> for a \<^verbatim>\<open>size_t\<close>, and the operators \<^verbatim>\<open>/\<close> and \<^verbatim>\<open>*\<close> on doubles.\<close>

definition double_of_nat :: "nat \<Rightarrow> double" where
  "double_of_nat n = round_double (real n)"

fun double_divide :: "double \<Rightarrow> double \<Rightarrow> double" where
  "double_divide (Finite a) (Finite b) =
     (if b = 0 then (if a = 0 then NaN else if 0 < a then PosInf else NegInf)
      else round_double (a / b))"
| "double_divide (Finite a) PosInf = Finite 0"
| "double_divide (Finite a) NegInf = Finite 0"
| "double_divide PosInf (Finite b) = (if 0 \<le> b then PosInf else NegInf)"
| "double_divide NegInf (Finite b) = (if 0 \<le> b then NegInf else PosInf)"
| "double_divide x y = NaN"

fun double_times :: "double \<Rightarrow> double \<Rightarrow> double" where
  "double_times (Finite a) (Finite b) = round_double (a * b)"
| "double_times (Finite a) PosInf = (if a = 0 then NaN else if 0 < a then PosInf else NegInf)"
| "double_times (Finite a) NegInf = (if a = 0 then NaN else if 0 < a then NegInf else PosInf)"
| "double_times PosInf (Finite b) = (if b = 0 then NaN else if 0 < b then PosInf else NegInf)"
| "double_times NegInf (Finite b) = (if b = 0 then NaN else if 0 < b then NegInf else PosInf)"
| "double_times PosInf PosInf = PosInf"
| "double_times PosInf NegInf = NegInf"
| "double_times NegInf PosInf = NegInf"
| "double_times NegInf NegInf = PosInf"
| "double_times x y = NaN"

datatype error =
    ConfigurationError "string list" string
      \<comment> \<open>a fatal parameter check: the parameters checked and the message\<close>
  | IndexOutOfBounds
      \<comment> \<open>a row or element index outside the matrix or vector\<close>
  | NoElements
      \<comment> \<open>\<^verbatim>\<open>arma::max\<close> of a vector without elements\<close>
  | NoModel
      \<comment> \<open>the \<^verbatim>\<open>input_model\<close> pointer read although it was never passed\<close>
  | BadParameterType string
      \<comment> \<open>raised by the parameter store: the named parameter is read at a type
         other than the one it was declared with\<close>
  | ClassifierError string
      \<comment> \<open>raised by the decision tree library, passed on unchanged\<close>

datatype message =
    Warn_Ignored string
      \<comment> \<open>\<^verbatim>\<open>ReportIgnoredParam\<close>: the named parameter is ignored\<close>
  | Warn_Require "string list" string
      \<comment> \<open>a parameter check that is not fatal\<close>
  | Info_LastDimension
      \<comment> \<open>"Using the last dimension of training set as labels."\<close>
  | Info_Correct string double nat nat
      \<comment> \<open>"p%% correct on <set> (c / n).": the set, p, c and n\<close>

text \<open>
  An \<^verbatim>\<open>arma::mat\<close>: rows are dimensions and columns are samples.  The matrix is
  kept as the list of its rows together with its number of columns (a matrix
  without rows still has a number of columns).
\<close>

record mat =
  n_cols :: nat
  rows :: "double list list"

text \<open>An \<^verbatim>\<open>arma::Mat<size_t>\<close>, kept in the same way.\<close>

record umat =
  umat_n_cols :: nat
  umat_rows :: "uword list list"

definition n_rows :: "mat \<Rightarrow> uword" where
  "n_rows m = word_of_nat (length (rows m))"

text \<open>\<^verbatim>\<open>m.row(i)\<close> and \<^verbatim>\<open>m.shed_row(i)\<close>; the index is a \<^verbatim>\<open>uword\<close>.\<close>

definition row :: "mat \<Rightarrow> uword \<Rightarrow> error + double list" where
  "row m i =
     (if unat i < length (rows m) then Inr (rows m ! unat i)
      else Inl IndexOutOfBounds)"

definition shed_row :: "mat \<Rightarrow> uword \<Rightarrow> error + mat" where
  "shed_row m i =
     (if unat i < length (rows m)
      then Inr (m\<lparr>rows := take (unat i) (rows m) @ drop (Suc (unat i)) (rows m)\<rparr>)
      else Inl IndexOutOfBounds)"

text \<open>\<^verbatim>\<open>arma::max(arma::max(labels))\<close> on a row vector: its largest element.\<close>

fun arma_max :: "uword list \<Rightarrow> error + uword" where
  "arma_max [] = Inl NoElements"
| "arma_max (x # xs) = Inr (fold max xs x)"

subsection \<open>The model and the decision tree library\<close>

text \<open>
  \<^verbatim>\<open>class DecisionTreeModel\<close>: the tree and the dataset information.  The types
  \<^verbatim>\<open>DecisionTree<>\<close> and \<^verbatim>\<open>DatasetInfo\<close> belong to the library and stay
  type parameters.
\<close>

record ('t, 'i) DecisionTreeModel =
  tree :: 't
  info :: 'i

text \<open>
  The arguments of the constructor \<^verbatim>\<open>DecisionTree<>(trainingSet, info, labels,
  numClasses, [weights,] minLeafSize, minimumGainSplit)\<close>.  The field
  \<open>arg_weights\<close> is \<open>None\<close> for the overload without weights; with the
  parameter \<^verbatim>\<open>weights\<close> it is that matrix, which the library reads as a row.
\<close>

record 'i train_args =
  arg_data :: mat
  arg_info :: 'i
  arg_labels :: "uword list"
  arg_numClasses :: uword
  arg_weights :: "mat option"
  arg_minLeafSize :: uword
  arg_minimumGainSplit :: double

text \<open>
  What the program takes from libraries: the conversion of one matrix element
  by \<^verbatim>\<open>arma::conv_to<arma::Row<size_t>>::from\<close>, the constructor of the tree,
  \<^verbatim>\<open>DecisionTree<>::Classify\<close>, which gives the predictions and the probabilities,
  and \<^verbatim>\<open>CLI::GetParam<arma::Row<size_t>>\<close> on a parameter that was declared as an
  \<^verbatim>\<open>arma::Mat<size_t>\<close>: line 231 reads \<^verbatim>\<open>test_labels\<close> so, which line 81
  declares with \<^verbatim>\<open>PARAM_UMATRIX_IN\<close>.  What the parameter store does with such a
  read is not in this file.
\<close>

record ('t, 'i) library =
  conv_to_size_t :: "double \<Rightarrow> uword"
  DecisionTree :: "'i train_args \<Rightarrow> error + 't"
  Classify :: "'t \<Rightarrow> mat \<Rightarrow> error + (uword list \<times> mat)"
  GetParam_Row_of_Mat :: "umat \<Rightarrow> error + uword list"

subsection \<open>The parameters\<close>

text \<open>
  The parameters declared by the \<^verbatim>\<open>PARAM_...\<close> macros of lines 76 to 94 and 120
  to 123, each at its declared type.  An input parameter that was not passed is
  \<open>None\<close>; for an output parameter the record says whether it was requested.
\<close>

record ('t, 'i) cli =
  training :: "('i \<times> mat) option"
  labels :: "uword list option"
  test :: "('i \<times> mat) option"
  weights :: "mat option"
  test_labels :: "umat option"
  minimum_leaf_size :: cint
  minimum_gain_split :: double
  print_training_error :: bool
  input_model :: "('t, 'i) DecisionTreeModel option"
  output_model_requested :: bool
  probabilities_requested :: bool
  predictions_requested :: bool

text \<open>
  What a run leaves behind: the dataset information written into the raw
  \<^verbatim>\<open>test\<close> parameter, the three output parameters (\<open>None\<close> when the run never
  assigned them) and the messages logged.
\<close>

record ('t, 'i) outcome =
  test_info :: "'i option"
  predictions :: "uword list option"
  probabilities :: "mat option"
  output_model :: "('t, 'i) DecisionTreeModel option"
  messages :: "message list"

text \<open>\<^verbatim>\<open>CLI::HasParam\<close>, for the parameter names that \<^verbatim>\<open>mlpackMain\<close> asks about.\<close>

definition HasParam :: "('t, 'i) cli \<Rightarrow> string \<Rightarrow> bool" where
  "HasParam p name =
     (if name = ''training'' then training p \<noteq> None
      else if name = ''labels'' then labels p \<noteq> None
      else if name = ''test'' then test p \<noteq> None
      else if name = ''weights'' then weights p \<noteq> None
      else if name = ''test_labels'' then test_labels p \<noteq> None
      else if name = ''print_training_error'' then print_training_error p
      else if name = ''input_model'' then input_model p \<noteq> None
      else if name = ''output_model'' then output_model_requested p
      else if name = ''probabilities'' then probabilities_requested p
      else if name = ''predictions'' then predictions_requested p
      else False)"

subsection \<open>The parameter checks\<close>

text \<open>
  Modelled from the spec: \<^verbatim>\<open>RequireOnlyOnePassed\<close> is declared in
  \<^verbatim>\<open>mlpack/core/util/param_checks.hpp\<close>, which is not part of the sources at hand.
  The spec: "Exactly one of {train-from-data, load-existing-model} must be
  selected; violating this fails with a ConfigurationError."  The flag \<open>fatal\<close>
  is the second argument of the call; a check that is not fatal warns.
\<close>

definition RequireOnlyOnePassed ::
  "('t, 'i) cli \<Rightarrow> string list \<Rightarrow> bool \<Rightarrow> message list \<Rightarrow> error + message list" where
  "RequireOnlyOnePassed p names fatal msgs =
     (if length (filter (HasParam p) names) = 1 then Inr msgs
      else if fatal then Inl (ConfigurationError names ''pass exactly one'')
      else Inr (msgs @ [Warn_Require names ''pass exactly one'']))"

text \<open>
  Modelled from the spec: \<^verbatim>\<open>RequireAtLeastOnePassed\<close> is declared in
  \<^verbatim>\<open>param_checks.hpp\<close> as well.  The spec: "At least one of {save-model,
  save-predictions, save-probabilities} should be requested, else warn that
  output will be discarded."
\<close>

definition RequireAtLeastOnePassed ::
  "('t, 'i) cli \<Rightarrow> string list \<Rightarrow> bool \<Rightarrow> string \<Rightarrow> message list \<Rightarrow> error + message list" where
  "RequireAtLeastOnePassed p names fatal errorMessage msgs =
     (if filter (HasParam p) names \<noteq> [] then Inr msgs
      else if fatal then Inl (ConfigurationError names errorMessage)
      else Inr (msgs @ [Warn_Require names errorMessage]))"

text \<open>
  Modelled from the spec: \<^verbatim>\<open>ReportIgnoredParam\<close> is declared in
  \<^verbatim>\<open>param_checks.hpp\<close> as well.  The spec: "If no test set is given, a test-labels
  parameter is meaningless and must be flagged/ignored with a warning", and
  "Warnings (ignored-but-harmless parameter combinations) are reported but never
  abort execution."  The constraints are pairs of a parameter and whether it has
  to be passed; when all of them hold and the named parameter is passed, the
  warning is written.
\<close>

definition ReportIgnoredParam ::
  "('t, 'i) cli \<Rightarrow> (string \<times> bool) list \<Rightarrow> string \<Rightarrow> message list \<Rightarrow> message list" where
  "ReportIgnoredParam p constraints name msgs =
     (if list_all (\<lambda>c. HasParam p (fst c) = snd c) constraints \<and> HasParam p name
      then msgs @ [Warn_Ignored name] else msgs)"

text \<open>
  Modelled from the spec: \<^verbatim>\<open>RequireParamValue<T>\<close> is declared in
  \<^verbatim>\<open>param_checks.hpp\<close> as well.  The spec: "\<^verbatim>\<open>minimum_leaf_size\<close> must be a positive
  integer; violation fails with ConfigurationError", and "\<^verbatim>\<open>minimum_gain_split\<close>
  must lie in the open interval (0,1); violation fails with ConfigurationError."
  The value of the named parameter is handed over; the condition and the
  message are those of the call.
\<close>

definition RequireParamValue ::
  "string \<Rightarrow> 'a \<Rightarrow> ('a \<Rightarrow> bool) \<Rightarrow> bool \<Rightarrow> string \<Rightarrow> message list \<Rightarrow> error + message list" where
  "RequireParamValue name v conditional fatal errorMessage msgs =
     (if conditional v then Inr msgs
      else if fatal then Inl (ConfigurationError [name] errorMessage)
      else Inr (msgs @ [Warn_Require [name] errorMessage]))"

text \<open>Lines 131 to 145 of \<^verbatim>\<open>mlpackMain\<close>: "Check parameters."\<close>

definition check_parameters :: "('t, 'i) cli \<Rightarrow> error + message list" where
  "check_parameters p =
     (case RequireOnlyOnePassed p [''training'', ''input_model''] True [] of
        Inl e \<Rightarrow> Inl e
      | Inr m1 \<Rightarrow>
     (case RequireAtLeastOnePassed p [''output_model'', ''probabilities'', ''predictions'']
             False ''no output will be saved''
             (ReportIgnoredParam p [(''test'', False)] ''test_labels'' m1) of
        Inl e \<Rightarrow> Inl e
      | Inr m3 \<Rightarrow>
     (case RequireParamValue ''minimum_leaf_size'' (minimum_leaf_size p)
             (\<lambda>x. 0 < sint x) True ''leaf size must be positive''
             (ReportIgnoredParam p [(''test'', False)] ''predictions''
               (ReportIgnoredParam p [(''test'', False)] ''predictions''
                 (ReportIgnoredParam p [(''training'', False)] ''print_training_error'' m3))) of
        Inl e \<Rightarrow> Inl e
      | Inr m7 \<Rightarrow>
        RequireParamValue ''minimum_gain_split'' (minimum_gain_split p)
          (\<lambda>x. double_less (Finite 0) x \<and> double_less x (Finite 1)) True
          ''gain split must be a fraction in range [0,1]'' m7)))"

subsection \<open>Training\<close>

text \<open>
  Lines 157 to 169: the labels are the parameter \<^verbatim>\<open>labels\<close>, or else the last row
  of the training set, which is then shed.  The result is the training set and
  the labels as they are afterwards.
\<close>

definition resolve_labels ::
  "('t, 'i) library \<Rightarrow> ('t, 'i) cli \<Rightarrow> mat \<Rightarrow> message list \<Rightarrow>
     error + (mat \<times> uword list \<times> message list)" where
  "resolve_labels lib p trainingSet msgs =
     (case labels p of
        Some l \<Rightarrow> Inr (trainingSet, l, msgs)
      | None \<Rightarrow>
         (case row trainingSet (n_rows trainingSet - 1) of
            Inl e \<Rightarrow> Inl e
          | Inr r \<Rightarrow>
             (case shed_row trainingSet (n_rows trainingSet - 1) of
                Inl e \<Rightarrow> Inl e
              | Inr shed \<Rightarrow>
                  Inr (shed, map (conv_to_size_t lib) r, msgs @ [Info_LastDimension]))))"

text \<open>
  Lines 155 to 190, up to the call of the constructor: the arguments with which
  the tree is built.
\<close>

definition train_arguments ::
  "('t, 'i) library \<Rightarrow> ('t, 'i) cli \<Rightarrow> 'i \<Rightarrow> mat \<Rightarrow> message list \<Rightarrow>
     error + ('i train_args \<times> message list)" where
  "train_arguments lib p dinfo trainingSet msgs =
     (case resolve_labels lib p trainingSet msgs of
        Inl e \<Rightarrow> Inl e
      | Inr (trainingSet', labels', msgs') \<Rightarrow>
         (case arma_max labels' of
            Inl e \<Rightarrow> Inl e
          | Inr mx \<Rightarrow>
              Inr (\<lparr>arg_data = trainingSet', arg_info = dinfo, arg_labels = labels',
                    arg_numClasses = mx + 1, arg_weights = weights p,
                    arg_minLeafSize = scast (minimum_leaf_size p),
                    arg_minimumGainSplit = minimum_gain_split p\<rparr>, msgs')))"

text \<open>
  The two \<^verbatim>\<open>for\<close> statements of lines 200 to 203 and 233 to 236: count the columns \<open>i\<close> below
  \<open>n\<close> with \<^verbatim>\<open>predictions[i] == labels[i]\<close>.  The element access of Armadillo does
  not check its index; an index outside either vector is an error here.
\<close>

function count_correct ::
  "uword list \<Rightarrow> uword list \<Rightarrow> nat \<Rightarrow> nat \<Rightarrow> nat \<Rightarrow> error + nat" where
  "count_correct preds labs n i correct =
     (if i < n then
        (if i < length preds \<and> i < length labs
         then count_correct preds labs n (Suc i)
                (if preds ! i = labs ! i then Suc correct else correct)
         else Inl IndexOutOfBounds)
      else Inr correct)"
  by pat_completeness auto
termination
  by (relation "measure (\<lambda>(preds, labs, n, i, correct). n - i)") auto

declare count_correct.simps [simp del]

text \<open>\<^verbatim>\<open>double(correct) / double(n) * 100\<close> of lines 206 and 239.\<close>

definition percent :: "nat \<Rightarrow> nat \<Rightarrow> double" where
  "percent correct n =
     double_times (double_divide (double_of_nat correct) (double_of_nat n)) (Finite 100)"

text \<open>Lines 195 to 208: the body of "Do we need to print training error?".\<close>

definition training_error ::
  "('t, 'i) library \<Rightarrow> 't \<Rightarrow> mat \<Rightarrow> uword list \<Rightarrow> error + message" where
  "training_error lib t trainingSet labs =
     (case Classify lib t trainingSet of
        Inl e \<Rightarrow> Inl e
      | Inr (preds, probs) \<Rightarrow>
         (case count_correct preds labs (n_cols trainingSet) 0 0 of
            Inl e \<Rightarrow> Inl e
          | Inr correct \<Rightarrow>
              Inr (Info_Correct ''training set''
                     (percent correct (n_cols trainingSet)) correct (n_cols trainingSet))))"

text \<open>Lines 152 to 214: "Load the model or build the tree."\<close>

definition build_model ::
  "('t, 'i) library \<Rightarrow> ('t, 'i) cli \<Rightarrow> message list \<Rightarrow>
     error + (('t, 'i) DecisionTreeModel \<times> message list)" where
  "build_model lib p msgs =
     (case training p of
        Some (dinfo, trainingSet) \<Rightarrow>
         (case train_arguments lib p dinfo trainingSet msgs of
            Inl e \<Rightarrow> Inl e
          | Inr (args, msgs') \<Rightarrow>
             (case DecisionTree lib args of
                Inl e \<Rightarrow> Inl e
              | Inr t \<Rightarrow>
                 (if print_training_error p then
                    (case training_error lib t (arg_data args) (arg_labels args) of
                       Inl e \<Rightarrow> Inl e
                     | Inr report \<Rightarrow> Inr (\<lparr>tree = t, info = dinfo\<rparr>, msgs' @ [report]))
                  else Inr (\<lparr>tree = t, info = dinfo\<rparr>, msgs'))))
      | None \<Rightarrow>
         (case input_model p of
            Some model \<Rightarrow> Inr (model, msgs)
          | None \<Rightarrow> Inl NoModel))"

subsection \<open>Testing and the outputs\<close>

text \<open>
  Line 219: the dataset information of the model is written into the raw
  \<^verbatim>\<open>test\<close> parameter, a pair of the information and the matrix.
\<close>

definition overwrite_info ::
  "'i \<times> mat \<Rightarrow> ('t, 'i) DecisionTreeModel \<Rightarrow> 'i \<times> mat" where
  "overwrite_info raw model = (info model, snd raw)"

text \<open>Lines 233 to 241: the accuracy on the test set, from the labels once they are read.\<close>

definition test_accuracy :: "uword list \<Rightarrow> uword list \<Rightarrow> mat \<Rightarrow> error + message" where
  "test_accuracy preds testLabels testPoints =
     (case count_correct preds testLabels (n_cols testPoints) 0 0 of
        Inl e \<Rightarrow> Inl e
      | Inr correct \<Rightarrow>
          Inr (Info_Correct ''test set''
                 (percent correct (n_cols testPoints)) correct (n_cols testPoints)))"

text \<open>
  Lines 217 to 247: "Do we need to get predictions?"  The test points are read
  from the \<^verbatim>\<open>test\<close> parameter after line 219 has written to it; the outputs are
  assigned last, after the labels were read and the accuracy was computed.
\<close>

definition test_model ::
  "('t, 'i) library \<Rightarrow> ('t, 'i) cli \<Rightarrow> ('t, 'i) DecisionTreeModel \<Rightarrow> message list \<Rightarrow>
     error + ('t, 'i) outcome" where
  "test_model lib p model msgs =
     (case test p of
        None \<Rightarrow>
          Inr \<lparr>test_info = None, predictions = None, probabilities = None,
               output_model = None, messages = msgs\<rparr>
      | Some raw \<Rightarrow>
         (case overwrite_info raw model of
            (dinfo, testPoints) \<Rightarrow>
         (case Classify lib (tree model) testPoints of
            Inl e \<Rightarrow> Inl e
          | Inr (preds, probs) \<Rightarrow>
             (case test_labels p of
                None \<Rightarrow>
                  Inr \<lparr>test_info = Some dinfo, predictions = Some preds,
                       probabilities = Some probs, output_model = None, messages = msgs\<rparr>
              | Some declared \<Rightarrow>
                 (case GetParam_Row_of_Mat lib declared of
                    Inl e \<Rightarrow> Inl e
                  | Inr testLabels \<Rightarrow>
                     (case test_accuracy preds testLabels testPoints of
                        Inl e \<Rightarrow> Inl e
                      | Inr report \<Rightarrow>
                          Inr \<lparr>test_info = Some dinfo, predictions = Some preds,
                               probabilities = Some probs, output_model = None,
                               messages = msgs @ [report]\<rparr>))))))"

text \<open>\<^verbatim>\<open>mlpackMain\<close>: the checks, the model, the test, and the model as output.\<close>

definition mlpackMain ::
  "('t, 'i) library \<Rightarrow> ('t, 'i) cli \<Rightarrow> error + ('t, 'i) outcome" where
  "mlpackMain lib p =
     (case check_parameters p of
        Inl e \<Rightarrow> Inl e
      | Inr msgs \<Rightarrow>
         (case build_model lib p msgs of
            Inl e \<Rightarrow> Inl e
          | Inr (model, msgs') \<Rightarrow>
             (case test_model lib p model msgs' of
                Inl e \<Rightarrow> Inl e
              | Inr out \<Rightarrow> Inr (out\<lparr>output_model := Some model\<rparr>))))"

subsection \<open>Serialization of the model\<close>

text \<open>
  \<^verbatim>\<open>DecisionTreeModel::serialize\<close> is one function for both directions: with a
  saving archive \<^verbatim>\<open>ar & x\<close> appends the encoding of \<open>x\<close> and leaves \<open>x\<close> as it
  is, with a loading archive it reads a value from the front of the archive and
  stores it in \<open>x\<close>.  A read that fails is \<open>None\<close>.
\<close>

datatype 'b archive = Saving "'b list" | Loading "'b list"

text \<open>The serializers of \<^verbatim>\<open>DecisionTree<>\<close> and of \<^verbatim>\<open>DatasetInfo\<close>, from the library.\<close>

record ('t, 'i, 'b) archiver =
  save_tree :: "'t \<Rightarrow> 'b list"
  load_tree :: "'b list \<Rightarrow> ('t \<times> 'b list) option"
  save_info :: "'i \<Rightarrow> 'b list"
  load_info :: "'b list \<Rightarrow> ('i \<times> 'b list) option"

definition ar_amp ::
  "('x \<Rightarrow> 'b list) \<Rightarrow> ('b list \<Rightarrow> ('x \<times> 'b list) option) \<Rightarrow> 'b archive \<Rightarrow> 'x \<Rightarrow>
     ('b archive \<times> 'x) option" where
  "ar_amp save load ar x =
     (case ar of
        Saving out \<Rightarrow> Some (Saving (out @ save x), x)
      | Loading inp \<Rightarrow>
         (case load inp of
            None \<Rightarrow> None
          | Some (y, rest) \<Rightarrow> Some (Loading rest, y)))"

text \<open>Lines 111 to 116: the tree first, then the dataset information.\<close>

definition serialize ::
  "('t, 'i, 'b) archiver \<Rightarrow> 'b archive \<Rightarrow> ('t, 'i) DecisionTreeModel \<Rightarrow>
     ('b archive \<times> ('t, 'i) DecisionTreeModel) option" where
  "serialize s ar model =
     (case ar_amp (save_tree s) (load_tree s) ar (tree model) of
        None \<Rightarrow> None
      | Some (ar1, t) \<Rightarrow>
         (case ar_amp (save_info s) (load_info s) ar1 (info model) of
            None \<Rightarrow> None
          | Some (ar2, i) \<Rightarrow> Some (ar2, model\<lparr>tree := t, info := i\<rparr>)))"

text \<open>
  Saving a model into an empty archive, and loading an archive into a model
  that was just constructed.
\<close>

definition save_model ::
  "('t, 'i, 'b) archiver \<Rightarrow> ('t, 'i) DecisionTreeModel \<Rightarrow> 'b list option" where
  "save_model s model =
     (case serialize s (Saving []) model of
        Some (Saving out, m) \<Rightarrow> Some out
      | Some (Loading inp, m) \<Rightarrow> None
      | None \<Rightarrow> None)"

definition load_model ::
  "('t, 'i, 'b) archiver \<Rightarrow> 'b list \<Rightarrow> ('t, 'i) DecisionTreeModel \<Rightarrow>
     ('t, 'i) DecisionTreeModel option" where
  "load_model s inp fresh =
     (case serialize s (Loading inp) fresh of
        Some (Loading rest, m) \<Rightarrow> Some m
      | Some (Saving out, m) \<Rightarrow> None
      | None \<Rightarrow> None)"

text \<open>
  Modelled from the spec: the serializers of \<^verbatim>\<open>DecisionTree<>\<close> and of
  \<^verbatim>\<open>DatasetInfo\<close> and the archives are not part of the sources at hand.  The
  spec: "ClassifierInstance supports serialize/deserialize round-trip producing
  a bit-identical-behaving instance."  Here: what was saved is read back from
  the front of an archive, and the rest of the archive is left.
\<close>

definition roundtrip ::
  "('x \<Rightarrow> 'b list) \<Rightarrow> ('b list \<Rightarrow> ('x \<times> 'b list) option) \<Rightarrow> bool" where
  "roundtrip save load = (\<forall>x rest. load (save x @ rest) = Some (x, rest))"

subsection \<open>The conversion of the label row\<close>

text \<open>
  Modelled from the spec: \<^verbatim>\<open>arma::conv_to\<close> belongs to Armadillo and is not part
  of the sources at hand.  The spec: "convert it to integer class indices", and
  the labels are "the integer-rounded contents of that row".  Here: the label of
  an entry that is a number from 0 to \<open>2 ^ 64 - 1\<close> is an integer next to it,
  the one below or the one above (the entry itself when it is an integer);
  the spec does not say which of the two, and says nothing of other entries.
\<close>

definition integer_rounded :: "uword \<Rightarrow> double \<Rightarrow> bool" where
  "integer_rounded l d =
     (case d of
        Finite r \<Rightarrow>
          (if 0 \<le> r \<and> r \<le> 2 ^ 64 - 1 then \<lfloor>r\<rfloor> \<le> uint l \<and> uint l \<le> \<lceil>r\<rceil> else True)
      | PosInf \<Rightarrow> True | NegInf \<Rightarrow> True | NaN \<Rightarrow> True)"

definition rounds_to_integer :: "(double \<Rightarrow> uword) \<Rightarrow> bool" where
  "rounds_to_integer conv = (\<forall>d. integer_rounded (conv d) d)"

subsection \<open>A library and parameters for concrete runs\<close>

text \<open>
  A conversion that truncates, a classifier that remembers the training labels
  by position (its tree is the label vector), and a parameter store that
  refuses to read a parameter at another type than the declared one.
\<close>

definition truncate_conv :: "double \<Rightarrow> uword" where
  "truncate_conv d =
     (case d of
        Finite r \<Rightarrow> (if r < 0 then 0 else word_of_nat (nat \<lfloor>r\<rfloor>))
      | PosInf \<Rightarrow> 0 | NegInf \<Rightarrow> 0 | NaN \<Rightarrow> 0)"

definition memo_library :: "(uword list, nat) library" where
  "memo_library =
     \<lparr>conv_to_size_t = truncate_conv,
      DecisionTree = (\<lambda>a. Inr (arg_labels a)),
      Classify = (\<lambda>t X. Inr (map (\<lambda>j. if j < length t then t ! j else 0) [0..<n_cols X],
                               X\<lparr>rows := []\<rparr>)),
      GetParam_Row_of_Mat = (\<lambda>M. Inl (BadParameterType ''test_labels''))\<rparr>"

text \<open>The same with a parameter store that hands out the row of a matrix of one row.\<close>

definition lenient_library :: "(uword list, nat) library" where
  "lenient_library =
     memo_library
       \<lparr>GetParam_Row_of_Mat :=
          (\<lambda>M. case umat_rows M of
                 [] \<Rightarrow> Inl (BadParameterType ''test_labels'')
               | r # rs \<Rightarrow> (if rs = [] then Inr r else Inl (BadParameterType ''test_labels'')))\<rparr>"

text \<open>The same with a classifier that predicts class 0 throughout, and with one that fails.\<close>

definition zero_library :: "(uword list, nat) library" where
  "zero_library =
     memo_library\<lparr>Classify := (\<lambda>t X. Inr (replicate (n_cols X) 0, X\<lparr>rows := []\<rparr>))\<rparr>"

definition failing_library :: "(uword list, nat) library" where
  "failing_library = memo_library\<lparr>Classify := (\<lambda>t X. Inl (ClassifierError ''Classify''))\<rparr>"


definition example_training :: mat where
  "example_training =
     \<lparr>n_cols = 4,
      rows = [ [Finite 1, Finite 2, Finite 3, Finite 4],
              [Finite 0, Finite 0, Finite 1, Finite 1] ]\<rparr>"

text \<open>Three points whose labels, in the last row, are not integers.\<close>

definition fraction_training :: mat where
  "fraction_training =
     \<lparr>n_cols = 3,
      rows = [ [Finite 1, Finite 2, Finite 3],
              [Finite (1 / 5), Finite (17 / 10), Finite (5 / 2)] ]\<rparr>"

text \<open>Three points with the labels 0, 1 and 1.\<close>

definition three_training :: mat where
  "three_training =
     \<lparr>n_cols = 3,
      rows = [ [Finite 1, Finite 2, Finite 3],
              [Finite 0, Finite 1, Finite 1] ]\<rparr>"

definition example_test :: mat where
  "example_test = \<lparr>n_cols = 2, rows = [ [Finite 2, Finite 3] ]\<rparr>"

definition example_model :: "(uword list, nat) DecisionTreeModel" where
  "example_model = \<lparr>tree = [0, 0, 1, 1], info = 1\<rparr>"

text \<open>Train on \<open>example_training\<close> with the labels in its last row.\<close>

definition train_cli :: "(uword list, nat) cli" where
  "train_cli =
     \<lparr>training = Some (2, example_training), labels = None, test = None,
      weights = None, test_labels = None, minimum_leaf_size = 1,
      minimum_gain_split = Finite (1 / 10000000), print_training_error = True,
      input_model = None, output_model_requested = True,
      probabilities_requested = False, predictions_requested = False\<rparr>"

text \<open>Load \<open>example_model\<close> and classify \<open>example_test\<close>.\<close>

definition load_cli :: "(uword list, nat) cli" where
  "load_cli =
     \<lparr>training = None, labels = None, test = Some (7, example_test),
      weights = None,
      test_labels = Some \<lparr>umat_n_cols = 2, umat_rows = [ [0, 1] ]\<rparr>,
      minimum_leaf_size = 20,
      minimum_gain_split = Finite (1 / 10000000), print_training_error = False,
      input_model = Some example_model, output_model_requested = False,
      probabilities_requested = True, predictions_requested = True\<rparr>"


text \<open>An archiver for these models: a tree is saved as its length and its labels.\<close>

definition memo_archiver :: "(uword list, nat, nat) archiver" where
  "memo_archiver =
     \<lparr>save_tree = (\<lambda>t. length t # map unat t),
      load_tree = (\<lambda>inp. case inp of
                     [] \<Rightarrow> None
                   | n # rest \<Rightarrow>
                       (if n \<le> length rest
                        then Some (map word_of_nat (take n rest), drop n rest)
                        else None)),
      save_info = (\<lambda>i. [i]),
      load_info = (\<lambda>inp. case inp of [] \<Rightarrow> None | i # rest \<Rightarrow> Some (i, rest))\<rparr>"

section \<open>Properties\<close>

subsection \<open>Auxiliary facts\<close>

lemma unat_last_index:
  assumes "length xs < 2 ^ 64" and "xs \<noteq> []"
  shows "unat (word_of_nat (length xs) - 1 :: uword) = length xs - 1"
proof -
  obtain k where k: "length xs = Suc k" using assms(2) by (cases xs) auto
  have "(word_of_nat (length xs) - 1 :: uword) = word_of_nat (length xs - 1)"
    by (simp add: k)
  moreover have "unat (word_of_nat (length xs - 1) :: uword) = length xs - 1"
    using assms(1) by (simp add: of_nat_inverse)
  ultimately show ?thesis by simp
qed

lemma unat_no_rows: "unat (word_of_nat 0 - 1 :: uword) = 18446744073709551615"
  by (simp add: unsigned_minus_1_eq_mask mask_eq_exp_minus_1)

lemma row_last:
  assumes "length (rows X) < 2 ^ 64" and "rows X \<noteq> []"
  shows "row X (n_rows X - 1) = Inr (last (rows X))"
  using assms unat_last_index [OF assms]
  by (simp add: row_def n_rows_def last_conv_nth)

lemma shed_row_last:
  assumes "length (rows X) < 2 ^ 64" and "rows X \<noteq> []"
  shows "shed_row X (n_rows X - 1) = Inr (X\<lparr>rows := butlast (rows X)\<rparr>)"
  using assms unat_last_index [OF assms]
  by (simp add: shed_row_def n_rows_def butlast_conv_take)

lemma row_no_rows: "rows X = [] \<Longrightarrow> row X (n_rows X - 1) = Inl IndexOutOfBounds"
  by (simp add: row_def n_rows_def)

lemma arma_max_Max: "arma_max L = Inr (Max (set L))" if "L \<noteq> []"
proof (cases L)
  case Nil
  then show ?thesis using that by simp
next
  case (Cons a list)
  then show ?thesis using Max.set_eq_fold [of a list] by simp
qed

text \<open>The loop counts the agreeing positions, when every index is inside both vectors.\<close>

lemma count_correct_eq:
  "i \<le> n \<Longrightarrow> count_correct P L n i c =
     (if i = n \<or> (n \<le> length P \<and> n \<le> length L)
      then Inr (c + length (filter (\<lambda>j. P ! j = L ! j) [i..<n]))
      else Inl IndexOutOfBounds)"
proof (induction P L n i c rule: count_correct.induct)
  case (1 preds labs n i correct)
  show ?case
  proof (cases "i < n")
    case False
    with "1.prems" show ?thesis by (simp add: count_correct.simps)
  next
    case lt: True
    show ?thesis
    proof (cases "i < length preds \<and> i < length labs")
      case False
      with lt show ?thesis by (subst count_correct.simps) auto
    next
      case True
      with lt "1.IH"
      have IH: "count_correct preds labs n (Suc i)
                  (if preds ! i = labs ! i then Suc correct else correct) =
                (if Suc i = n \<or> (n \<le> length preds \<and> n \<le> length labs)
                 then Inr ((if preds ! i = labs ! i then Suc correct else correct) +
                           length (filter (\<lambda>j. preds ! j = labs ! j) [Suc i..<n]))
                 else Inl IndexOutOfBounds)"
        by simp
      have up: "[i..<n] = i # [Suc i..<n]"
        using lt by (simp add: upt_conv_Cons)
      from lt True show ?thesis
        by (subst count_correct.simps) (auto simp: IH up)
    qed
  qed
qed

text \<open>The parameter checks, one by one and together.\<close>

lemma unit_interval:
  "double_less (Finite 0) x \<and> double_less x (Finite 1) \<longleftrightarrow>
     (\<exists>r. x = Finite r \<and> 0 < r \<and> r < 1)"
  by (cases x) auto

lemma HasParam_simps:
  "HasParam p ''training'' = (training p \<noteq> None)"
  "HasParam p ''input_model'' = (input_model p \<noteq> None)"
  "HasParam p ''test'' = (test p \<noteq> None)"
  "HasParam p ''test_labels'' = (test_labels p \<noteq> None)"
  "HasParam p ''print_training_error'' = print_training_error p"
  "HasParam p ''output_model'' = output_model_requested p"
  "HasParam p ''probabilities'' = probabilities_requested p"
  "HasParam p ''predictions'' = predictions_requested p"
  by (simp_all add: HasParam_def)

lemma only_one_passed:
  "RequireOnlyOnePassed p [''training'', ''input_model''] fatal msgs =
     (if (training p = None) \<noteq> (input_model p = None) then Inr msgs
      else if fatal then Inl (ConfigurationError [''training'', ''input_model''] ''pass exactly one'')
      else Inr (msgs @ [Warn_Require [''training'', ''input_model''] ''pass exactly one'']))"
  unfolding RequireOnlyOnePassed_def filter.simps HasParam_simps
  by (cases "training p"; cases "input_model p") simp_all

lemma at_least_one_passed:
  "RequireAtLeastOnePassed p [''output_model'', ''probabilities'', ''predictions'']
     False errorMessage msgs =
     Inr (msgs @
       (if \<not> output_model_requested p \<and> \<not> probabilities_requested p \<and>
           \<not> predictions_requested p
        then [Warn_Require [''output_model'', ''probabilities'', ''predictions''] errorMessage]
        else []))"
  unfolding RequireAtLeastOnePassed_def filter.simps HasParam_simps
  by simp

lemma ignored_without:
  "ReportIgnoredParam p [(c, False)] name msgs =
     msgs @ (if \<not> HasParam p c \<and> HasParam p name then [Warn_Ignored name] else [])"
  by (simp add: ReportIgnoredParam_def)

lemma check_parameters_eq:
  "check_parameters p =
     (if (training p = None) = (input_model p = None)
      then Inl (ConfigurationError [''training'', ''input_model''] ''pass exactly one'')
      else if \<not> 0 < sint (minimum_leaf_size p)
      then Inl (ConfigurationError [''minimum_leaf_size''] ''leaf size must be positive'')
      else if \<not> (double_less (Finite 0) (minimum_gain_split p) \<and>
                  double_less (minimum_gain_split p) (Finite 1))
      then Inl (ConfigurationError [''minimum_gain_split'']
                  ''gain split must be a fraction in range [0,1]'')
      else Inr (
        (if test p = None \<and> test_labels p \<noteq> None then [Warn_Ignored ''test_labels''] else []) @
        (if \<not> output_model_requested p \<and> \<not> probabilities_requested p \<and>
            \<not> predictions_requested p
         then [Warn_Require [''output_model'', ''probabilities'', ''predictions'']
                 ''no output will be saved''] else []) @
        (if training p = None \<and> print_training_error p
         then [Warn_Ignored ''print_training_error''] else []) @
        (if test p = None \<and> predictions_requested p
         then [Warn_Ignored ''predictions'', Warn_Ignored ''predictions''] else [])))"
proof -
  define w1 where "w1 =
    (if test p = None \<and> test_labels p \<noteq> None then [Warn_Ignored ''test_labels''] else [])"
  define w2 where "w2 =
    (if \<not> output_model_requested p \<and> \<not> probabilities_requested p \<and>
        \<not> predictions_requested p
     then [Warn_Require [''output_model'', ''probabilities'', ''predictions'']
             ''no output will be saved''] else [])"
  define w3 where "w3 =
    (if training p = None \<and> print_training_error p
     then [Warn_Ignored ''print_training_error''] else [])"
  define w4 where "w4 =
    (if test p = None \<and> predictions_requested p then [Warn_Ignored ''predictions''] else [])"
  have r1: "ReportIgnoredParam p [(''test'', False)] ''test_labels'' msgs = msgs @ w1" for msgs
    unfolding ignored_without HasParam_simps w1_def by simp
  have r2: "RequireAtLeastOnePassed p [''output_model'', ''probabilities'', ''predictions'']
      False ''no output will be saved'' msgs = Inr (msgs @ w2)" for msgs
    unfolding at_least_one_passed w2_def by simp
  have r3: "ReportIgnoredParam p [(''training'', False)] ''print_training_error'' msgs =
      msgs @ w3" for msgs
    unfolding ignored_without HasParam_simps w3_def by simp
  have r4: "ReportIgnoredParam p [(''test'', False)] ''predictions'' msgs = msgs @ w4" for msgs
    unfolding ignored_without HasParam_simps w4_def by simp
  have w44: "w4 @ w4 =
      (if test p = None \<and> predictions_requested p
       then [Warn_Ignored ''predictions'', Warn_Ignored ''predictions''] else [])"
    by (simp add: w4_def)
  have all: "check_parameters p =
     (if (training p = None) = (input_model p = None)
      then Inl (ConfigurationError [''training'', ''input_model''] ''pass exactly one'')
      else if \<not> 0 < sint (minimum_leaf_size p)
      then Inl (ConfigurationError [''minimum_leaf_size''] ''leaf size must be positive'')
      else if \<not> (double_less (Finite 0) (minimum_gain_split p) \<and>
                  double_less (minimum_gain_split p) (Finite 1))
      then Inl (ConfigurationError [''minimum_gain_split'']
                  ''gain split must be a fraction in range [0,1]'')
      else Inr (w1 @ w2 @ w3 @ w4 @ w4))"
    unfolding check_parameters_def only_one_passed r1 r2 r3 r4 RequireParamValue_def
    by (cases "training p"; cases "input_model p") simp_all
  show ?thesis
    unfolding all w44 unfolding w1_def w2_def w3_def by (rule refl)
qed

lemma mlpackMain_check_fails: "check_parameters p = Inl e \<Longrightarrow> mlpackMain lib p = Inl e"
  by (simp add: mlpackMain_def)

lemma resolve_labels_messages:
  "resolve_labels lib p X msgs = Inr (X', L, msgs') \<Longrightarrow>
     msgs' = msgs \<or> msgs' = msgs @ [Info_LastDimension]"
  by (auto simp: resolve_labels_def split: option.splits sum.splits)

lemma train_arguments_messages:
  "train_arguments lib p dinfo X msgs = Inr (args, msgs') \<Longrightarrow>
     msgs' = msgs \<or> msgs' = msgs @ [Info_LastDimension]"
  by (auto simp: train_arguments_def split: sum.splits dest: resolve_labels_messages)

lemma training_error_message:
  "training_error lib t X L = Inr report \<Longrightarrow>
     \<exists>c. report = Info_Correct ''training set'' (percent c (n_cols X)) c (n_cols X)"
  by (auto simp: training_error_def split: sum.splits)

lemma build_model_messages:
  assumes "build_model lib p msgs = Inr (model, msgs')"
  shows "\<exists>extra. msgs' = msgs @ extra \<and> (\<forall>name. Warn_Ignored name \<notin> set extra)"
proof (cases "training p")
  case None
  with assms have "msgs' = msgs"
    by (auto simp: build_model_def split: option.splits)
  then show ?thesis by simp
next
  case (Some a)
  obtain dinfo X where a: "a = (dinfo, X)" by (cases a)
  from assms Some a obtain args m1 t
    where ta: "train_arguments lib p dinfo X msgs = Inr (args, m1)"
      and rest: "msgs' = m1 \<or>
        (\<exists>report. training_error lib t (arg_data args) (arg_labels args) = Inr report \<and>
           msgs' = m1 @ [report])"
    by (auto simp: build_model_def split: sum.splits if_splits)
  from train_arguments_messages [OF ta]
  obtain e1 where e1: "m1 = msgs @ e1" "\<forall>name. Warn_Ignored name \<notin> set e1"
    by auto
  from rest show ?thesis
  proof
    assume "msgs' = m1"
    with e1 show ?thesis by blast
  next
    assume "\<exists>report. training_error lib t (arg_data args) (arg_labels args) = Inr report \<and>
           msgs' = m1 @ [report]"
    then obtain report
      where r: "training_error lib t (arg_data args) (arg_labels args) = Inr report"
        and m: "msgs' = m1 @ [report]" by blast
    from training_error_message [OF r] have "\<forall>name. report \<noteq> Warn_Ignored name" by auto
    with e1 m have "msgs' = msgs @ (e1 @ [report]) \<and>
        (\<forall>name. Warn_Ignored name \<notin> set (e1 @ [report]))" by auto
    then show ?thesis by blast
  qed
qed

lemma test_accuracy_message:
  "test_accuracy preds L T = Inr report \<Longrightarrow>
     \<exists>c. report = Info_Correct ''test set'' (percent c (n_cols T)) c (n_cols T)"
  by (auto simp: test_accuracy_def split: sum.splits)

lemma test_model_messages:
  assumes "test_model lib p model msgs = Inr out"
  shows "\<exists>extra. messages out = msgs @ extra \<and> (\<forall>name. Warn_Ignored name \<notin> set extra)"
proof -
  from assms have "messages out = msgs \<or>
      (\<exists>s d c n. messages out = msgs @ [Info_Correct s d c n])"
    by (auto simp: test_model_def overwrite_info_def
          split: option.splits sum.splits prod.splits dest!: test_accuracy_message)
  then show ?thesis
  proof
    assume "messages out = msgs"
    then show ?thesis by simp
  next
    assume "\<exists>s d c n. messages out = msgs @ [Info_Correct s d c n]"
    then obtain s d c n where "messages out = msgs @ [Info_Correct s d c n]" by blast
    then have "messages out = msgs @ [Info_Correct s d c n] \<and>
        (\<forall>name. Warn_Ignored name \<notin> set [Info_Correct s d c n])" by simp
    then show ?thesis by blast
  qed
qed

lemma test_model_without_test:
  "test p = None \<Longrightarrow> test_model lib p model msgs =
     Inr \<lparr>test_info = None, predictions = None, probabilities = None,
          output_model = None, messages = msgs\<rparr>"
  by (simp add: test_model_def)

lemma mlpackMain_Inr:
  assumes "mlpackMain lib p = Inr out"
  obtains msgs model msgs' out' where "check_parameters p = Inr msgs"
    and "build_model lib p msgs = Inr (model, msgs')"
    and "test_model lib p model msgs' = Inr out'"
    and "out = out'\<lparr>output_model := Some model\<rparr>"
  using assms by (auto simp: mlpackMain_def split: sum.splits)


text \<open>Parameters that the checks, the training and the test do not depend on.\<close>

lemma test_model_prefix:
  "test_model lib p model msgs =
     (case test_model lib p model [] of
        Inl e \<Rightarrow> Inl e
      | Inr out \<Rightarrow> Inr (out\<lparr>messages := msgs @ messages out\<rparr>))"
  by (simp add: test_model_def overwrite_info_def split: option.splits sum.splits prod.splits)

lemma check_parameters_test_labels:
  "test p = Some tp \<Longrightarrow> check_parameters (p\<lparr>test_labels := x\<rparr>) = check_parameters p"
  unfolding check_parameters_eq by auto

lemma check_parameters_print:
  "training p = Some tr \<Longrightarrow>
     check_parameters (p\<lparr>print_training_error := x\<rparr>) = check_parameters p"
  unfolding check_parameters_eq by auto

lemma train_arguments_test_labels:
  "train_arguments lib (p\<lparr>test_labels := x\<rparr>) = train_arguments lib p"
  by (intro ext) (simp add: train_arguments_def resolve_labels_def split: sum.splits)

lemma train_arguments_print:
  "train_arguments lib (p\<lparr>print_training_error := x\<rparr>) = train_arguments lib p"
  by (intro ext) (simp add: train_arguments_def resolve_labels_def split: sum.splits)

lemma build_model_test_labels:
  "build_model lib (p\<lparr>test_labels := x\<rparr>) msgs = build_model lib p msgs"
  by (simp add: build_model_def train_arguments_test_labels
        split: option.splits sum.splits prod.splits)

lemma test_model_print:
  "test_model lib (p\<lparr>print_training_error := x\<rparr>) = test_model lib p"
  by (intro ext) (simp add: test_model_def split: option.splits sum.splits prod.splits)

lemma test_model_labels:
  "test_model lib (p\<lparr>labels := x\<rparr>) = test_model lib p"
  by (intro ext) (simp add: test_model_def split: option.splits sum.splits prod.splits)

lemma test_model_classified:
  assumes "test p = Some (tinfo, T)" and "Classify lib (tree model) T = Inr (preds, probs)"
  shows "test_model lib p model msgs =
     (case test_labels p of
        None \<Rightarrow> Inr \<lparr>test_info = Some (info model), predictions = Some preds,
                     probabilities = Some probs, output_model = None, messages = msgs\<rparr>
      | Some M \<Rightarrow>
         (case GetParam_Row_of_Mat lib M of
            Inl e \<Rightarrow> Inl e
          | Inr L \<Rightarrow>
             (case test_accuracy preds L T of
                Inl e \<Rightarrow> Inl e
              | Inr report \<Rightarrow> Inr \<lparr>test_info = Some (info model), predictions = Some preds,
                     probabilities = Some probs, output_model = None,
                     messages = msgs @ [report]\<rparr>)))"
  using assms by (simp add: test_model_def overwrite_info_def)

lemma test_model_Inr:
  assumes "test p = Some (tinfo, T)" and "test_model lib p model msgs = Inr out"
  obtains preds probs where "Classify lib (tree model) T = Inr (preds, probs)"
    and "test_info out = Some (info model)" and "predictions out = Some preds"
    and "probabilities out = Some probs"
  using assms
  by (auto simp: test_model_def overwrite_info_def split: sum.splits option.splits)

lemma test_model_fails:
  "test p = Some (tinfo, T) \<Longrightarrow> Classify lib (tree model) T = Inl e \<Longrightarrow>
     test_model lib p model msgs = Inl e"
  by (simp add: test_model_def overwrite_info_def)

lemma test_accuracy_eq:
  "test_accuracy P L T =
     (if n_cols T \<le> length P \<and> n_cols T \<le> length L \<or> n_cols T = 0
      then Inr (Info_Correct ''test set''
                  (percent (length (filter (\<lambda>j. P ! j = L ! j) [0..<n_cols T])) (n_cols T))
                  (length (filter (\<lambda>j. P ! j = L ! j) [0..<n_cols T])) (n_cols T))
      else Inl IndexOutOfBounds)"
proof -
  have "count_correct P L (n_cols T) 0 0 =
      (if 0 = n_cols T \<or> (n_cols T \<le> length P \<and> n_cols T \<le> length L)
       then Inr (0 + length (filter (\<lambda>j. P ! j = L ! j) [0..<n_cols T]))
       else Inl IndexOutOfBounds)"
    by (rule count_correct_eq) simp
  then show ?thesis by (auto simp: test_accuracy_def)
qed

lemma training_error_eq:
  "Classify lib t X = Inr (P, probs) \<Longrightarrow> training_error lib t X L =
     (if n_cols X \<le> length P \<and> n_cols X \<le> length L \<or> n_cols X = 0
      then Inr (Info_Correct ''training set''
                  (percent (length (filter (\<lambda>j. P ! j = L ! j) [0..<n_cols X])) (n_cols X))
                  (length (filter (\<lambda>j. P ! j = L ! j) [0..<n_cols X])) (n_cols X))
      else Inl IndexOutOfBounds)"
proof -
  assume c: "Classify lib t X = Inr (P, probs)"
  have "count_correct P L (n_cols X) 0 0 =
      (if 0 = n_cols X \<or> (n_cols X \<le> length P \<and> n_cols X \<le> length L)
       then Inr (0 + length (filter (\<lambda>j. P ! j = L ! j) [0..<n_cols X]))
       else Inl IndexOutOfBounds)"
    by (rule count_correct_eq) simp
  then show ?thesis by (auto simp: training_error_def c)
qed

lemma training_error_fails:
  "Classify lib t X = Inl e \<Longrightarrow> training_error lib t X L = Inl e"
  by (simp add: training_error_def)

text \<open>The model is built by the constructor, called with the resolved labels.\<close>

lemma build_model_constructor:
  assumes "training p = Some (dinfo, X)"
    and "resolve_labels lib p X msgs = Inr (X', L, msgs')" and "L \<noteq> []"
  shows "build_model lib p msgs =
     (case DecisionTree lib
             \<lparr>arg_data = X', arg_info = dinfo, arg_labels = L,
              arg_numClasses = Max (set L) + 1, arg_weights = weights p,
              arg_minLeafSize = scast (minimum_leaf_size p),
              arg_minimumGainSplit = minimum_gain_split p\<rparr> of
        Inl e \<Rightarrow> Inl e
      | Inr t \<Rightarrow>
         (if print_training_error p then
            (case training_error lib t X' L of
               Inl e \<Rightarrow> Inl e
             | Inr report \<Rightarrow> Inr (\<lparr>tree = t, info = dinfo\<rparr>, msgs' @ [report]))
          else Inr (\<lparr>tree = t, info = dinfo\<rparr>, msgs')))"
  using assms
  by (simp add: build_model_def train_arguments_def arma_max_Max split: sum.splits)


text \<open>The truncating conversion rounds to an integer.\<close>

lemma truncate_conv_rounds: "rounds_to_integer truncate_conv"
proof -
  have "\<lfloor>r\<rfloor> \<le> uint (word_of_nat (nat \<lfloor>r\<rfloor>) :: uword) \<and>
      uint (word_of_nat (nat \<lfloor>r\<rfloor>) :: uword) \<le> \<lceil>r\<rceil>"
    if "0 \<le> r" and "r \<le> 2 ^ 64 - 1" for r :: real
  proof -
    have f0: "0 \<le> \<lfloor>r\<rfloor>" using that(1) by simp
    have "\<lfloor>r\<rfloor> \<le> \<lfloor>2 ^ 64 - 1 :: real\<rfloor>" using that(2) by (rule floor_mono)
    also have "\<lfloor>2 ^ 64 - 1 :: real\<rfloor> = 2 ^ 64 - 1" by simp
    finally have fl: "\<lfloor>r\<rfloor> < 2 ^ 64" by simp
    have "nat \<lfloor>r\<rfloor> < nat (2 ^ 64)"
      using f0 fl by (intro nat_mono_iff [THEN iffD2]) simp_all
    then have "nat \<lfloor>r\<rfloor> < 2 ^ 64" by simp
    then have "unat (word_of_nat (nat \<lfloor>r\<rfloor>) :: uword) = nat \<lfloor>r\<rfloor>"
      by (simp add: of_nat_inverse)
    then have "uint (word_of_nat (nat \<lfloor>r\<rfloor>) :: uword) = \<lfloor>r\<rfloor>"
      using f0 by (simp add: uint_nat)
    then show ?thesis by (simp add: floor_le_ceiling)
  qed
  then show ?thesis
    by (auto simp: rounds_to_integer_def integer_rounded_def truncate_conv_def
          split: double.splits)
qed

lemma training_error_value:
  assumes "training_error lib t X L = Inr report"
  obtains preds probs where "Classify lib t X = Inr (preds, probs)"
    and "report = Info_Correct ''training set''
           (percent (length (filter (\<lambda>i. preds ! i = L ! i) [0..<n_cols X])) (n_cols X))
           (length (filter (\<lambda>i. preds ! i = L ! i) [0..<n_cols X])) (n_cols X)"
proof -
  from assms obtain preds probs c where cl: "Classify lib t X = Inr (preds, probs)"
    and cc: "count_correct preds L (n_cols X) 0 0 = Inr c"
    and r: "report = Info_Correct ''training set'' (percent c (n_cols X)) c (n_cols X)"
    by (auto simp: training_error_def split: sum.splits)
  have "count_correct preds L (n_cols X) 0 0 =
      (if 0 = n_cols X \<or> (n_cols X \<le> length preds \<and> n_cols X \<le> length L)
       then Inr (0 + length (filter (\<lambda>j. preds ! j = L ! j) [0..<n_cols X]))
       else Inl IndexOutOfBounds)"
    by (rule count_correct_eq) simp
  with cc have "c = length (filter (\<lambda>j. preds ! j = L ! j) [0..<n_cols X])"
    by (simp split: if_splits)
  with cl r show ?thesis by (intro that) simp_all
qed

text \<open>One \<^verbatim>\<open>ar & x\<close> in each direction.\<close>

lemma ar_amp_saving: "ar_amp save load (Saving out) x = Some (Saving (out @ save x), x)"
  by (simp add: ar_amp_def)

lemma ar_amp_loading:
  "roundtrip save load \<Longrightarrow>
     ar_amp save load (Loading (save x @ rest)) y = Some (Loading rest, x)"
  by (simp add: ar_amp_def roundtrip_def)

lemma memo_archiver_roundtrip:
  "roundtrip (save_tree memo_archiver) (load_tree memo_archiver)"
  "roundtrip (save_info memo_archiver) (load_info memo_archiver)"
proof -
  have "map word_of_nat (map unat t) = t" for t :: "uword list"
    by (induction t) simp_all
  then show "roundtrip (save_tree memo_archiver) (load_tree memo_archiver)"
    by (simp add: roundtrip_def memo_archiver_def)
  show "roundtrip (save_info memo_archiver) (load_info memo_archiver)"
    by (simp add: roundtrip_def memo_archiver_def)
qed

subsection \<open>Rounding to a double\<close>

lemma round_even_close: "\<bar>of_int (round_even s) - s\<bar> \<le> 1 / 2"
proof -
  have "of_int \<lfloor>s\<rfloor> \<le> s" "s < of_int \<lfloor>s\<rfloor> + 1" by linarith+
  then show ?thesis
    unfolding round_even_def by (simp add: abs_le_iff)
qed

lemma round_even_of_int: "round_even (of_int k) = k"
  by (simp add: round_even_def)

lemma nat_le_real_pow: "2 ^ k \<le> (N :: nat) \<Longrightarrow> (2 :: real) ^ k \<le> real N"
proof -
  assume "2 ^ k \<le> N"
  then have "real (2 ^ k) \<le> real N" by (rule of_nat_mono)
  then show ?thesis by simp
qed

lemma nat_less_real_pow: "(N :: nat) < 2 ^ k \<Longrightarrow> real N + 1 \<le> 2 ^ k"
proof -
  assume "N < 2 ^ k"
  then have "Suc N \<le> 2 ^ k" by simp
  then have "real (Suc N) \<le> real (2 ^ k)" by (rule of_nat_mono)
  then show ?thesis by simp
qed

lemma powi_less_exp: "(2 :: real) powi a < 2 powi b \<Longrightarrow> a < b"
proof (rule ccontr)
  assume lt: "(2 :: real) powi a < 2 powi b" and "\<not> a < b"
  then have "b \<le> a" by simp
  then have "(2 :: real) powi b \<le> 2 powi a"
    by (intro power_int_increasing) simp_all
  with lt show False by simp
qed

lemma floorlog_pos: "0 < n \<Longrightarrow> 0 < floorlog 2 n"
  by (simp add: floorlog_def)

lemma binary_exponent_bounds:
  assumes "0 < a"
  shows "2 powi binary_exponent a \<le> a \<and> a < 2 powi (binary_exponent a + 1)"
proof (cases "1 \<le> a")
  case True
  define N where "N = nat \<lfloor>a\<rfloor>"
  define b where "b = floorlog 2 N"
  have N: "0 < N" using True by (simp add: N_def)
  have Nle: "real N \<le> a" and Ngt: "a < real N + 1"
    using True by (simp_all add: N_def)
  from floorlog_bounds [OF N, of 2] have lo: "2 ^ (b - 1) \<le> N" and hi: "N < 2 ^ b"
    by (simp_all add: b_def)
  have b: "0 < b" using floorlog_pos [OF N] by (simp add: b_def)
  have e: "binary_exponent a = int b - 1"
    using True by (simp add: binary_exponent_def N_def b_def)
  have p1: "(2 :: real) powi (int b - 1) = 2 ^ (b - 1)"
    using b by (simp add: power_int_def nat_diff_distrib')
  have p2: "(2 :: real) powi (int b - 1 + 1) = 2 ^ b"
    by simp
  from lo have "(2 :: real) ^ (b - 1) \<le> real N"
    by (rule nat_le_real_pow)
  moreover from hi have "real N + 1 \<le> 2 ^ b"
    by (rule nat_less_real_pow)
  ultimately show ?thesis
    using Nle Ngt unfolding e p1 p2 by linarith
next
  case False
  define y where "y = 1 / a"
  define M where "M = nat \<lceil>y\<rceil> - 1"
  define b where "b = floorlog 2 M"
  have y1: "1 < y" using assms False by (simp add: y_def)
  then have c2: "2 \<le> \<lceil>y\<rceil>" by linarith
  have M: "0 < M" using c2 by (simp add: M_def)
  have iM: "int M = \<lceil>y\<rceil> - 1"
    unfolding M_def using c2 by arith
  have "real M = real_of_int (int M)" by simp
  then have rM: "real M = of_int \<lceil>y\<rceil> - 1"
    unfolding iM by simp
  have Mlt: "real M < y" and Mge: "y \<le> real M + 1"
    unfolding rM by linarith+
  from floorlog_bounds [OF M, of 2] have lo: "2 ^ (b - 1) \<le> M" and hi: "M < 2 ^ b"
    by (simp_all add: b_def)
  have b: "0 < b" using floorlog_pos [OF M] by (simp add: b_def)
  have e: "binary_exponent a = - int b"
    using False by (simp add: binary_exponent_def M_def b_def y_def)
  have p1: "(2 :: real) powi (- int b) = 1 / 2 ^ b"
    by (simp add: power_int_minus_divide)
  have p2: "(2 :: real) powi (- int b + 1) = 1 / 2 ^ (b - 1)"
  proof -
    have "- int b + 1 = - int (b - 1)" using b by simp
    then show ?thesis by (simp only: power_int_minus_divide power_int_of_nat)
  qed
  from lo have lo': "(2 :: real) ^ (b - 1) \<le> real M"
    by (rule nat_le_real_pow)
  from hi have hi': "real M + 1 \<le> 2 ^ b"
    by (rule nat_less_real_pow)
  have ya: "a = 1 / y" using assms by (simp add: y_def)
  have ylo: "(2 :: real) ^ (b - 1) < y" using lo' Mlt by linarith
  have yhi: "y \<le> 2 ^ b" using hi' Mge by linarith
  have y0: "0 < y" using y1 by simp
  have f1: "1 / 2 ^ b \<le> a"
    unfolding ya using y0 yhi by (simp add: field_simps)
  have f2: "a < 1 / 2 ^ (b - 1)"
    unfolding ya using y0 ylo by (simp add: field_simps)
  have A: "(2 :: real) powi binary_exponent a = 1 / 2 ^ b"
    unfolding e by (rule p1)
  have B: "(2 :: real) powi (binary_exponent a + 1) = 1 / 2 ^ (b - 1)"
    unfolding e by (rule p2)
  show ?thesis
    unfolding A B using f1 f2 by simp
qed

lemma round_double_normal:
  assumes lo: "2 powi (- 1022) \<le> x" and hi: "x < 2 ^ 1023"
  obtains y where "round_double x = Finite y" and "\<bar>y - x\<bar> \<le> x / 2 ^ 53"
    and "y = of_int (round_even (x / 2 powi (binary_exponent x - 52))) *
             2 powi (binary_exponent x - 52)"
proof -
  have pos: "0 < x"
    using lo zero_less_power_int [of "2 :: real" "- 1022"] by linarith
  define e where "e = binary_exponent x"
  from binary_exponent_bounds [OF pos]
  have b1: "2 powi e \<le> x" and b2: "x < 2 powi (e + 1)"
    by (simp_all add: e_def)
  have "(2 :: real) powi (- 1022) < 2 powi (e + 1)" using lo b2 by linarith
  then have e_lo: "- 1022 \<le> e" using powi_less_exp by fastforce
  have "(2 :: real) powi e < 2 powi 1023" using b1 hi by simp
  then have e_hi: "e < 1023" by (rule powi_less_exp)
  define u where "u = (2 :: real) powi (e - 52)"
  define m where "m = round_even (x / u)"
  have u: "0 < u" by (simp add: u_def)
  have ax: "\<bar>x\<bar> = x" using pos by simp
  have mx: "max (binary_exponent x) (- 1022) = e"
    using e_lo by (simp add: e_def)
  have r: "round_double x = Finite (of_int m * u)"
    unfolding round_double_def ax mx Let_def m_def u_def
    using pos e_hi by simp
  have "\<bar>of_int m - x / u\<bar> \<le> 1 / 2"
    unfolding m_def by (rule round_even_close)
  then have "\<bar>of_int m - x / u\<bar> * u \<le> 1 / 2 * u"
    using u by (intro mult_right_mono) simp_all
  moreover have "\<bar>of_int m - x / u\<bar> * u = \<bar>of_int m * u - x\<bar>"
  proof -
    have "\<bar>of_int m - x / u\<bar> * u = \<bar>(of_int m - x / u) * u\<bar>"
      using u by (simp add: abs_mult)
    also have "(of_int m - x / u) * u = of_int m * u - x"
      using u by (simp add: field_simps)
    finally show ?thesis .
  qed
  moreover have "1 / 2 * u = 2 powi e / 2 ^ 53"
  proof -
    have "(2 :: real) powi (e - 52) = 2 powi e * 2 powi (- 52)"
      using power_int_add [of "2 :: real" e "- 52"] by simp
    then show ?thesis
      by (simp add: u_def power_int_minus_divide)
  qed
  moreover have "2 powi e / 2 ^ 53 \<le> x / 2 ^ 53"
    using b1 by (simp add: divide_right_mono)
  ultimately have "\<bar>of_int m * u - x\<bar> \<le> x / 2 ^ 53" by linarith
  with r show ?thesis
    by (intro that [of "of_int m * u"]) (simp_all add: m_def u_def e_def)
qed

lemma double_of_nat_zero: "double_of_nat 0 = Finite 0"
  by (simp add: double_of_nat_def round_double_def)

lemma double_of_nat_close:
  assumes "0 < n" and "n < 2 ^ 64"
  obtains y where "double_of_nat n = Finite y" and "\<bar>y - real n\<bar> \<le> real n / 2 ^ 53"
proof -
  have "(2 :: real) powi (- 1022) \<le> 2 powi 0"
    by (intro power_int_increasing) simp_all
  moreover have "1 \<le> real n" using assms(1) by simp
  ultimately have lo: "2 powi (- 1022) \<le> real n" by simp
  have "real n < real (2 ^ 64)" using assms(2) by (simp only: of_nat_less_iff)
  also have "\<dots> < 2 ^ 1023" by simp
  finally have hi: "real n < 2 ^ 1023" .
  from round_double_normal [OF lo hi] show ?thesis
    using that by (auto simp: double_of_nat_def)
qed

lemma abs_relative:
  fixes a b :: real
  assumes "\<bar>a - b\<bar> \<le> b / 2 ^ 53"
  shows "b * (1 - 1 / 2 ^ 53) \<le> a" and "a \<le> b * (1 + 1 / 2 ^ 53)"
proof -
  define d where "d = b / 2 ^ 53"
  have eq: "b * (1 - 1 / 2 ^ 53) = b - d" "b * (1 + 1 / 2 ^ 53) = b + d"
    by (simp_all add: d_def algebra_simps)
  from assms have "\<bar>a - b\<bar> \<le> d" by (simp add: d_def)
  then have "b - d \<le> a" and "a \<le> b + d" by linarith+
  then show "b * (1 - 1 / 2 ^ 53) \<le> a" and "a \<le> b * (1 + 1 / 2 ^ 53)"
    unfolding eq .
qed

lemma relative_chain:
  fixes c n xc yn q p :: real
  assumes c: "0 < c" and n: "0 < n"
    and x: "\<bar>xc - c\<bar> \<le> c / 2 ^ 53" and y: "\<bar>yn - n\<bar> \<le> n / 2 ^ 53"
    and q: "\<bar>q - xc / yn\<bar> \<le> xc / yn / 2 ^ 53"
    and p: "\<bar>p - q * 100\<bar> \<le> q * 100 / 2 ^ 53"
  shows "\<bar>p - 100 * c / n\<bar> \<le> 100 * c / n / 2 ^ 50"
proof -
  define eps :: real where "eps = 1 / 2 ^ 53"
  define k where "k = c / n"
  have k: "0 < k" using c n by (simp add: k_def)
  have x1: "c * (1 - eps) \<le> xc" and x2: "xc \<le> c * (1 + eps)"
    using abs_relative [OF x] by (simp_all add: eps_def)
  have y1: "n * (1 - eps) \<le> yn" and y2: "yn \<le> n * (1 + eps)"
    using abs_relative [OF y] by (simp_all add: eps_def)
  have e1: "0 < 1 - eps" and e2: "0 < 1 + eps" by (simp_all add: eps_def)
  have "0 < c * (1 - eps)" using c e1 by (rule mult_pos_pos)
  with x1 have xpos: "0 < xc" by linarith
  have "0 < n * (1 - eps)" using n e1 by (rule mult_pos_pos)
  with y1 have ypos: "0 < yn" by linarith
  define r where "r = xc / yn"
  have rpos: "0 < r" using xpos ypos by (simp add: r_def)
  have "r \<le> (c * (1 + eps)) / (n * (1 - eps))"
    unfolding r_def using x2 y1 xpos n e1 by (intro frac_le) (simp_all add: mult_pos_pos)
  also have "\<dots> = k * ((1 + eps) / (1 - eps))" by (simp add: k_def)
  also have "\<dots> \<le> k * (1 + 3 * eps)"
    using k by (intro mult_left_mono) (simp_all add: eps_def field_simps)
  finally have r_hi: "r \<le> k * (1 + 3 * eps)" .
  have "k * (1 - 3 * eps) \<le> k * ((1 - eps) / (1 + eps))"
    using k by (intro mult_left_mono) (simp_all add: eps_def field_simps)
  also have "\<dots> = (c * (1 - eps)) / (n * (1 + eps))" by (simp add: k_def)
  also have "\<dots> \<le> r"
    unfolding r_def using x1 y2 xpos ypos
    by (intro frac_le) simp_all
  finally have r_lo: "k * (1 - 3 * eps) \<le> r" .
  have q1: "r * (1 - eps) \<le> q" and q2: "q \<le> r * (1 + eps)"
    using abs_relative [OF q] by (simp_all add: r_def eps_def)
  have "0 < r * (1 - eps)" using rpos e1 by (rule mult_pos_pos)
  with q1 have qpos: "0 < q" by linarith
  have p1: "q * 100 * (1 - eps) \<le> p" and p2: "p \<le> q * 100 * (1 + eps)"
    using abs_relative [OF p] by (simp_all add: eps_def)
  have "p \<le> q * (100 * (1 + eps))" using p2 by (simp add: algebra_simps)
  also have "\<dots> \<le> (r * (1 + eps)) * (100 * (1 + eps))"
    using q2 e2 by (intro mult_right_mono) simp_all
  also have "\<dots> \<le> (k * (1 + 3 * eps) * (1 + eps)) * (100 * (1 + eps))"
    using r_hi e2 by (intro mult_right_mono) simp_all
  also have "\<dots> = k * ((1 + 3 * eps) * (1 + eps) * (100 * (1 + eps)))"
    by (simp add: algebra_simps)
  also have "\<dots> \<le> k * (100 * (1 + 8 * eps))"
    using k by (intro mult_left_mono) (simp_all add: eps_def field_simps)
  finally have hi: "p \<le> k * (100 * (1 + 8 * eps))" .
  have "k * (100 * (1 - 8 * eps)) \<le> k * ((1 - 3 * eps) * (1 - eps) * (100 * (1 - eps)))"
    using k by (intro mult_left_mono) (simp_all add: eps_def field_simps)
  also have "\<dots> = (k * (1 - 3 * eps) * (1 - eps)) * (100 * (1 - eps))"
    by (simp add: algebra_simps)
  also have "\<dots> \<le> (r * (1 - eps)) * (100 * (1 - eps))"
    using r_lo e1 by (intro mult_right_mono) simp_all
  also have "\<dots> \<le> q * (100 * (1 - eps))"
    using q1 e1 by (intro mult_right_mono) simp_all
  also have "\<dots> \<le> p" using p1 by (simp add: algebra_simps)
  finally have lo: "k * (100 * (1 - 8 * eps)) \<le> p" .
  define t where "t = k * 100"
  define d where "d = t * (8 * eps)"
  have "k * (100 * (1 - 8 * eps)) = t - d" and "k * (100 * (1 + 8 * eps)) = t + d"
    by (simp_all add: t_def d_def algebra_simps)
  with lo hi have "t - d \<le> p" and "p \<le> t + d" by simp_all
  then have "\<bar>p - t\<bar> \<le> d" by linarith
  moreover have "100 * c / n = t" by (simp add: t_def k_def)
  moreover have "100 * c / n / 2 ^ 50 = d"
    by (simp add: d_def t_def k_def eps_def)
  ultimately show ?thesis by simp
qed

lemma in_normal_range:
  fixes x :: real
  assumes "1 / 2 ^ 74 \<le> x" and "x \<le> 2 ^ 74"
  shows "2 powi (- 1022) \<le> x" and "x < 2 ^ 1023"
proof -
  have "(2 :: real) powi (- 1022) \<le> 2 powi (- 74)"
    by (intro power_int_increasing) simp_all
  also have "\<dots> = 1 / 2 ^ 74" by (simp add: power_int_minus_divide)
  finally show "2 powi (- 1022) \<le> x" using assms(1) by simp
  have "(2 :: real) ^ 74 < 2 ^ 1023"
    by (intro power_strict_increasing) simp_all
  with assms(2) show "x < 2 ^ 1023" by simp
qed

lemma percent_close:
  assumes n: "0 < n" and n64: "n < 2 ^ 64" and cn: "c \<le> n"
  obtains r where "percent c n = Finite r"
    and "\<bar>r - 100 * real c / real n\<bar> \<le> 100 * real c / real n / 2 ^ 50"
proof (cases "c = 0")
  case True
  from double_of_nat_close [OF n n64] obtain yn
    where yn: "double_of_nat n = Finite yn" and yc: "\<bar>yn - real n\<bar> \<le> real n / 2 ^ 53"
    by blast
  have "0 < real n * (1 - 1 / 2 ^ 53)" using n by simp
  with abs_relative(1) [OF yc] have "yn \<noteq> 0" by linarith
  then have "percent c n = Finite 0"
    by (simp add: percent_def True double_of_nat_zero yn round_double_def)
  then show ?thesis
    by (intro that [of 0]) (simp_all add: True)
next
  case False
  then have c: "0 < c" by simp
  have c64: "c < 2 ^ 64" using cn n64 by simp
  from double_of_nat_close [OF c c64] obtain xc
    where xc: "double_of_nat c = Finite xc" and xcc: "\<bar>xc - real c\<bar> \<le> real c / 2 ^ 53"
    by blast
  from double_of_nat_close [OF n n64] obtain yn
    where yn: "double_of_nat n = Finite yn" and ync: "\<bar>yn - real n\<bar> \<le> real n / 2 ^ 53"
    by blast
  have rc1: "1 \<le> real c" and rn1: "1 \<le> real n" using c n by simp_all
  have "real c < real (2 ^ 64)" using c64 by (simp only: of_nat_less_iff)
  then have rc2: "real c \<le> 2 ^ 64" by simp
  have "real n < real (2 ^ 64)" using n64 by (simp only: of_nat_less_iff)
  then have rn2: "real n \<le> 2 ^ 64" by simp
  have half: "real k * (1 - 1 / 2 ^ 53) \<ge> real k / 2" and twice: "real k * (1 + 1 / 2 ^ 53) \<le> real k * 2"
    for k :: nat
    by (simp_all add: field_simps)
  have xlo: "1 / 2 \<le> xc" using abs_relative(1) [OF xcc] half [of c] rc1 by linarith
  have xhi: "xc \<le> 2 ^ 65" using abs_relative(2) [OF xcc] twice [of c] rc2 by simp
  have ylo: "1 / 2 \<le> yn" using abs_relative(1) [OF ync] half [of n] rn1 by linarith
  have yhi: "yn \<le> 2 ^ 65" using abs_relative(2) [OF ync] twice [of n] rn2 by simp
  define q0 where "q0 = xc / yn"
  have "1 / 2 / 2 ^ 65 \<le> xc / yn"
    using xlo ylo yhi by (intro frac_le) simp_all
  then have q0lo: "1 / 2 ^ 66 \<le> q0" by (simp add: q0_def)
  have "xc / yn \<le> 2 ^ 65 / (1 / 2)"
    using xlo xhi ylo by (intro frac_le) simp_all
  then have q0hi: "q0 \<le> 2 ^ 66" by (simp add: q0_def)
  have "1 / 2 ^ 74 \<le> q0" "q0 \<le> 2 ^ 74" using q0lo q0hi by simp_all
  note nq = in_normal_range [OF this]
  from round_double_normal [OF nq] obtain q
    where q: "round_double q0 = Finite q" and qc: "\<bar>q - q0\<bar> \<le> q0 / 2 ^ 53"
    by blast
  have "(0 :: real) < 1 / 2 ^ 66" by simp
  with q0lo have q0pos: "0 < q0" by linarith
  have "q0 * (1 - 1 / 2 ^ 53) \<ge> q0 / 2" and "q0 * (1 + 1 / 2 ^ 53) \<le> q0 * 2"
    using q0pos by (simp_all add: field_simps)
  with abs_relative [OF qc] have "q0 / 2 \<le> q" and "q \<le> q0 * 2" by linarith+
  with q0lo q0hi have "1 / 2 ^ 74 \<le> q * 100" and "q * 100 \<le> 2 ^ 74" by simp_all
  note np = in_normal_range [OF this]
  from round_double_normal [OF np] obtain p
    where p: "round_double (q * 100) = Finite p" and pc: "\<bar>p - q * 100\<bar> \<le> q * 100 / 2 ^ 53"
    by blast
  have yn0: "yn \<noteq> 0" using ylo by simp
  have "percent c n = Finite p"
    using q p by (simp add: percent_def xc yn yn0 q0_def)
  moreover have "\<bar>p - 100 * real c / real n\<bar> \<le> 100 * real c / real n / 2 ^ 50"
    using c n xcc ync qc pc unfolding q0_def
    by (intro relative_chain [of "real c" "real n" xc yn q p]) simp_all
  ultimately show ?thesis by (rule that)
qed

lemma percent_no_columns: "percent 0 0 = NaN"
  by (simp add: percent_def double_of_nat_zero)

section \<open>The claims\<close>

subsection \<open>Label resolution and the class count\<close>

text \<open>
  C1, as amended.  When the parameter \<^verbatim>\<open>labels\<close> is passed, the training set and
  the label vector go to training as they are.  When it is not passed and the
  training set has at least one row, the last row is shed, the training set
  that is left has one row fewer, and the labels are the entries of that last
  row, each rounded to an integer by a conversion that keeps the contract
  \<open>rounds_to_integer\<close>.  What label resolution returns is what
  \<^verbatim>\<open>train_arguments\<close> hands on, and the model is built by the constructor called
  with that training set and those labels.  (The number of rows fits into a
  \<^verbatim>\<open>uword\<close>, as in every \<^verbatim>\<open>arma::mat\<close>.)
\<close>

theorem label_resolution:
  assumes "length (rows X) < 2 ^ 64" and "rounds_to_integer (conv_to_size_t lib)"
  shows "(labels p = Some l \<longrightarrow> resolve_labels lib p X msgs = Inr (X, l, msgs)) \<and>
         (labels p = None \<and> rows X \<noteq> [] \<longrightarrow>
            resolve_labels lib p X msgs =
              Inr (X\<lparr>rows := butlast (rows X)\<rparr>,
                   map (conv_to_size_t lib) (last (rows X)),
                   msgs @ [Info_LastDimension]) \<and>
            length (rows (X\<lparr>rows := butlast (rows X)\<rparr>)) + 1 = length (rows X) \<and>
            list_all2 integer_rounded
              (map (conv_to_size_t lib) (last (rows X))) (last (rows X))) \<and>
         (train_arguments lib p dinfo X msgs = Inr (args, msgs') \<longrightarrow>
            resolve_labels lib p X msgs = Inr (arg_data args, arg_labels args, msgs')) \<and>
         (training p = Some (dinfo, X) \<and>
          resolve_labels lib p X msgs = Inr (X', L, msgs') \<and> L \<noteq> [] \<longrightarrow>
            build_model lib p msgs =
              (case DecisionTree lib
                      \<lparr>arg_data = X', arg_info = dinfo, arg_labels = L,
                       arg_numClasses = Max (set L) + 1, arg_weights = weights p,
                       arg_minLeafSize = scast (minimum_leaf_size p),
                       arg_minimumGainSplit = minimum_gain_split p\<rparr> of
                 Inl e \<Rightarrow> Inl e
               | Inr t \<Rightarrow>
                  (if print_training_error p then
                     (case training_error lib t X' L of
                        Inl e \<Rightarrow> Inl e
                      | Inr report \<Rightarrow> Inr (\<lparr>tree = t, info = dinfo\<rparr>, msgs' @ [report]))
                   else Inr (\<lparr>tree = t, info = dinfo\<rparr>, msgs'))))"
proof (intro conjI impI)
  assume "labels p = Some l"
  then show "resolve_labels lib p X msgs = Inr (X, l, msgs)"
    by (simp add: resolve_labels_def)
next
  assume a: "labels p = None \<and> rows X \<noteq> []"
  with assms(1) show "resolve_labels lib p X msgs =
      Inr (X\<lparr>rows := butlast (rows X)\<rparr>, map (conv_to_size_t lib) (last (rows X)),
           msgs @ [Info_LastDimension])"
    by (simp add: resolve_labels_def row_last shed_row_last)
  from a show "length (rows (X\<lparr>rows := butlast (rows X)\<rparr>)) + 1 = length (rows X)"
    by simp
  from assms(2) have "integer_rounded (conv_to_size_t lib d) d" for d
    by (simp add: rounds_to_integer_def)
  then show "list_all2 integer_rounded
      (map (conv_to_size_t lib) (last (rows X))) (last (rows X))"
    by (simp add: list_all2_conv_all_nth)
next
  assume "train_arguments lib p dinfo X msgs = Inr (args, msgs')"
  then show "resolve_labels lib p X msgs = Inr (arg_data args, arg_labels args, msgs')"
    by (auto simp: train_arguments_def split: sum.splits)
next
  assume "training p = Some (dinfo, X) \<and>
      resolve_labels lib p X msgs = Inr (X', L, msgs') \<and> L \<noteq> []"
  then have "training p = Some (dinfo, X)"
    and "resolve_labels lib p X msgs = Inr (X', L, msgs')" and "L \<noteq> []"
    by blast+
  then show "build_model lib p msgs =
      (case DecisionTree lib
              \<lparr>arg_data = X', arg_info = dinfo, arg_labels = L,
               arg_numClasses = Max (set L) + 1, arg_weights = weights p,
               arg_minLeafSize = scast (minimum_leaf_size p),
               arg_minimumGainSplit = minimum_gain_split p\<rparr> of
         Inl e \<Rightarrow> Inl e
       | Inr t \<Rightarrow>
          (if print_training_error p then
             (case training_error lib t X' L of
                Inl e \<Rightarrow> Inl e
              | Inr report \<Rightarrow> Inr (\<lparr>tree = t, info = dinfo\<rparr>, msgs' @ [report]))
           else Inr (\<lparr>tree = t, info = dinfo\<rparr>, msgs')))"
    by (rule build_model_constructor)
qed

theorem label_resolution_witness:
  "resolve_labels memo_library (train_cli\<lparr>labels := Some [1, 0, 1, 0]\<rparr>) example_training [] =
     Inr (example_training, [1, 0, 1, 0], []) \<and>
   resolve_labels memo_library train_cli fraction_training [] =
     Inr (\<lparr>n_cols = 3, rows = [ [Finite 1, Finite 2, Finite 3] ]\<rparr>,
          [0, 1, 2], [Info_LastDimension]) \<and>
   length (rows \<lparr>n_cols = 3, rows = [ [Finite 1, Finite 2, Finite 3] ]\<rparr>) + 1 =
     length (rows fraction_training) \<and>
   integer_rounded 0 (Finite (1 / 5)) \<and> integer_rounded 1 (Finite (17 / 10)) \<and>
   integer_rounded 2 (Finite (5 / 2)) \<and>
   build_model memo_library
     (train_cli\<lparr>training := Some (2, fraction_training), print_training_error := False\<rparr>) [] =
     Inr (\<lparr>tree = [0, 1, 2], info = 2\<rparr>, [Info_LastDimension])"
proof -
  let ?X = "\<lparr>n_cols = 3, rows = [ [Finite 1, Finite 2, Finite 3] ]\<rparr>"
  let ?p = "train_cli\<lparr>training := Some (2, fraction_training), print_training_error := False\<rparr>"
  have fits: "length (rows example_training) < 2 ^ 64"
    and fits': "length (rows fraction_training) < 2 ^ 64"
    by (simp_all add: example_training_def fraction_training_def)
  have conv: "rounds_to_integer (conv_to_size_t memo_library)"
    using truncate_conv_rounds by (simp add: memo_library_def)
  have given: "labels (train_cli\<lparr>labels := Some [1, 0, 1, 0]\<rparr>) = Some [1, 0, 1, 0]"
    by simp
  have last_row: "labels train_cli = None \<and> rows fraction_training \<noteq> []"
    and last_row': "labels ?p = None \<and> rows fraction_training \<noteq> []"
    by (simp_all add: train_cli_def fraction_training_def)
  have butlast: "fraction_training\<lparr>rows := butlast (rows fraction_training)\<rparr> = ?X"
    and conv_last: "map (conv_to_size_t memo_library) (last (rows fraction_training)) = [0, 1, 2]"
    by (simp_all add: fraction_training_def memo_library_def truncate_conv_def)
  have a: "resolve_labels memo_library (train_cli\<lparr>labels := Some [1, 0, 1, 0]\<rparr>)
      example_training [] = Inr (example_training, [1, 0, 1, 0], [])"
    using label_resolution [OF fits conv, THEN conjunct1, THEN mp, OF given] .
  note inferred = label_resolution [OF fits' conv, where msgs = "[]",
      THEN conjunct2, THEN conjunct1, THEN mp]
  have b: "resolve_labels memo_library train_cli fraction_training [] =
      Inr (?X, [0, 1, 2], [Info_LastDimension])"
    using inferred [OF last_row] by (simp add: butlast conv_last)
  have reached: "train_arguments memo_library ?p 2 fraction_training [] =
      Inr (\<lparr>arg_data = ?X, arg_info = 2, arg_labels = [0, 1, 2], arg_numClasses = 3,
            arg_weights = None, arg_minLeafSize = 1,
            arg_minimumGainSplit = Finite (1 / 10000000)\<rparr>, [Info_LastDimension])"
    by code_simp
  have b': "resolve_labels memo_library ?p fraction_training [] =
      Inr (?X, [0, 1, 2], [Info_LastDimension])"
    using label_resolution [OF fits' conv, THEN conjunct2, THEN conjunct2, THEN conjunct1,
        THEN mp, OF reached]
    by simp
  have c: "length (rows ?X) + 1 = length (rows fraction_training)"
    using inferred [OF last_row] by (simp add: butlast)
  have "list_all2 integer_rounded [0, 1, 2] (last (rows fraction_training))"
    using inferred [OF last_row] by (simp add: conv_last)
  then have d: "integer_rounded 0 (Finite (1 / 5)) \<and> integer_rounded 1 (Finite (17 / 10)) \<and>
      integer_rounded 2 (Finite (5 / 2))"
    by (simp add: fraction_training_def)
  have tr: "training ?p = Some (2, fraction_training)"
    by simp
  have "build_model memo_library ?p [] = Inr (\<lparr>tree = [0, 1, 2], info = 2\<rparr>, [Info_LastDimension])"
    using label_resolution [OF fits' conv, where p = ?p and msgs = "[]" and dinfo = 2
        and X' = ?X and L = "[0, 1, 2]" and msgs' = "[Info_LastDimension]",
        THEN conjunct2, THEN conjunct2, THEN conjunct2, THEN mp] tr b'
    by (simp add: memo_library_def train_cli_def)
  with a b c d show ?thesis by blast
qed

text \<open>
  C1, as stated, asks this of every training set.  A training set without rows
  and without the parameter \<^verbatim>\<open>labels\<close> has no last row: label resolution, and
  with it the run, ends in an index out of bounds.
\<close>

theorem label_resolution_counterexample:
  "labels train_cli = None \<and>
   resolve_labels memo_library train_cli \<lparr>n_cols = 3, rows = []\<rparr> [] = Inl IndexOutOfBounds \<and>
   mlpackMain memo_library (train_cli\<lparr>training := Some (2, \<lparr>n_cols = 3, rows = []\<rparr>)\<rparr>) =
     Inl IndexOutOfBounds"
proof -
  let ?X = "\<lparr>n_cols = 3, rows = []\<rparr>"
  let ?p = "train_cli\<lparr>training := Some (2, ?X)\<rparr>"
  have l: "labels train_cli = None" and l': "labels ?p = None"
    by (simp_all add: train_cli_def)
  have r: "resolve_labels lib p ?X msgs = Inl IndexOutOfBounds" if "labels p = None"
    for lib :: "(uword list, nat) library" and p msgs
    using that by (simp add: resolve_labels_def row_no_rows)
  have c: "check_parameters ?p = Inr []"
    by code_simp
  have t: "training ?p = Some (2, ?X)"
    by simp
  have "build_model memo_library ?p [] = Inl IndexOutOfBounds"
    by (simp add: build_model_def t train_arguments_def r [OF l'])
  then have "mlpackMain memo_library ?p = Inl IndexOutOfBounds"
    by (simp add: mlpackMain_def c)
  with l r [OF l] show ?thesis by simp
qed



subsection \<open>Validation\<close>

text \<open>
  C3.  The check of \<^verbatim>\<open>training\<close> and \<^verbatim>\<open>input_model\<close> passes exactly when one
  of the two is passed and the other is not.  With both or with neither, the
  checks and the whole run end in a configuration error, whatever the library
  would do; a run that returns had exactly one of them.
\<close>

theorem exactly_one_mode:
  "(RequireOnlyOnePassed p [''training'', ''input_model''] True msgs = Inr msgs \<longleftrightarrow>
      (training p = None) \<noteq> (input_model p = None)) \<and>
   ((training p = None) = (input_model p = None) \<longrightarrow>
      check_parameters p =
        Inl (ConfigurationError [''training'', ''input_model''] ''pass exactly one'') \<and>
      mlpackMain lib p =
        Inl (ConfigurationError [''training'', ''input_model''] ''pass exactly one'')) \<and>
   (mlpackMain lib p = Inr out \<longrightarrow> (training p = None) \<noteq> (input_model p = None))"
proof (intro conjI impI)
  show "RequireOnlyOnePassed p [''training'', ''input_model''] True msgs = Inr msgs \<longleftrightarrow>
      (training p = None) \<noteq> (input_model p = None)"
    unfolding only_one_passed by simp
next
  assume "(training p = None) = (input_model p = None)"
  then show c: "check_parameters p =
      Inl (ConfigurationError [''training'', ''input_model''] ''pass exactly one'')"
    unfolding check_parameters_eq by simp
  then show "mlpackMain lib p =
      Inl (ConfigurationError [''training'', ''input_model''] ''pass exactly one'')"
    by (rule mlpackMain_check_fails)
next
  assume "mlpackMain lib p = Inr out"
  then obtain msgs where "check_parameters p = Inr msgs"
    by (rule mlpackMain_Inr)
  then show "(training p = None) \<noteq> (input_model p = None)"
    unfolding check_parameters_eq by (simp split: if_splits)
qed

theorem exactly_one_mode_witness:
  "mlpackMain memo_library (train_cli\<lparr>input_model := Some example_model\<rparr>) =
     Inl (ConfigurationError [''training'', ''input_model''] ''pass exactly one'') \<and>
   mlpackMain memo_library (load_cli\<lparr>input_model := None\<rparr>) =
     Inl (ConfigurationError [''training'', ''input_model''] ''pass exactly one'') \<and>
   RequireOnlyOnePassed train_cli [''training'', ''input_model''] True [] = Inr [] \<and>
   (training train_cli = None) \<noteq> (input_model train_cli = None)"
proof -
  have both: "mlpackMain memo_library (train_cli\<lparr>input_model := Some example_model\<rparr>) =
     Inl (ConfigurationError [''training'', ''input_model''] ''pass exactly one'')"
    using exactly_one_mode [where p = "train_cli\<lparr>input_model := Some example_model\<rparr>"
        and lib = memo_library, THEN conjunct2, THEN conjunct1]
    by (simp add: train_cli_def)
  have neither: "mlpackMain memo_library (load_cli\<lparr>input_model := None\<rparr>) =
     Inl (ConfigurationError [''training'', ''input_model''] ''pass exactly one'')"
    using exactly_one_mode [where p = "load_cli\<lparr>input_model := None\<rparr>"
        and lib = memo_library, THEN conjunct2, THEN conjunct1]
    by (simp add: load_cli_def)
  have run: "mlpackMain memo_library train_cli =
      Inr \<lparr>test_info = None, predictions = None, probabilities = None,
           output_model = Some \<lparr>tree = [0, 0, 1, 1], info = 2\<rparr>,
           messages = [Info_LastDimension, Info_Correct ''training set'' (Finite 100) 4 4]\<rparr>"
    by code_simp
  have one: "(training train_cli = None) \<noteq> (input_model train_cli = None)"
    using exactly_one_mode [where p = train_cli and lib = memo_library,
        THEN conjunct2, THEN conjunct2, THEN mp, OF run] .
  have pass: "RequireOnlyOnePassed train_cli [''training'', ''input_model''] True [] = Inr []"
    using exactly_one_mode [where p = train_cli and msgs = "[]", THEN conjunct1] one
    by simp
  from both neither pass one show ?thesis by blast
qed

text \<open>
  C4.  The check of \<^verbatim>\<open>minimum_leaf_size\<close> passes exactly when the value is
  positive, the check of \<^verbatim>\<open>minimum_gain_split\<close> exactly when the value is a
  number strictly between 0 and 1; each fails with a configuration error.
  When exactly one of \<^verbatim>\<open>training\<close> and \<^verbatim>\<open>input_model\<close> is passed, all checks
  pass exactly when both values are as required, and otherwise the checks and
  the run end in the configuration error of the first of the two that fails.
\<close>

theorem hyperparameter_validation:
  "RequireParamValue ''minimum_leaf_size'' (minimum_leaf_size p) (\<lambda>x. 0 < sint x) True
      ''leaf size must be positive'' msgs =
     (if 0 < sint (minimum_leaf_size p) then Inr msgs
      else Inl (ConfigurationError [''minimum_leaf_size''] ''leaf size must be positive'')) \<and>
   RequireParamValue ''minimum_gain_split'' (minimum_gain_split p)
      (\<lambda>x. double_less (Finite 0) x \<and> double_less x (Finite 1)) True
      ''gain split must be a fraction in range [0,1]'' msgs =
     (if \<exists>r. minimum_gain_split p = Finite r \<and> 0 < r \<and> r < 1 then Inr msgs
      else Inl (ConfigurationError [''minimum_gain_split'']
                  ''gain split must be a fraction in range [0,1]'')) \<and>
   ((training p = None) \<noteq> (input_model p = None) \<longrightarrow>
      ((\<exists>m. check_parameters p = Inr m) \<longleftrightarrow>
         0 < sint (minimum_leaf_size p) \<and>
         (\<exists>r. minimum_gain_split p = Finite r \<and> 0 < r \<and> r < 1)) \<and>
      (\<not> 0 < sint (minimum_leaf_size p) \<longrightarrow>
         check_parameters p =
           Inl (ConfigurationError [''minimum_leaf_size''] ''leaf size must be positive'') \<and>
         mlpackMain lib p =
           Inl (ConfigurationError [''minimum_leaf_size''] ''leaf size must be positive'')) \<and>
      (0 < sint (minimum_leaf_size p) \<and>
       \<not> (\<exists>r. minimum_gain_split p = Finite r \<and> 0 < r \<and> r < 1) \<longrightarrow>
         check_parameters p =
           Inl (ConfigurationError [''minimum_gain_split'']
                  ''gain split must be a fraction in range [0,1]'') \<and>
         mlpackMain lib p =
           Inl (ConfigurationError [''minimum_gain_split'']
                  ''gain split must be a fraction in range [0,1]'')))"
proof (intro conjI impI)
  show "RequireParamValue ''minimum_leaf_size'' (minimum_leaf_size p) (\<lambda>x. 0 < sint x) True
      ''leaf size must be positive'' msgs =
     (if 0 < sint (minimum_leaf_size p) then Inr msgs
      else Inl (ConfigurationError [''minimum_leaf_size''] ''leaf size must be positive''))"
    by (simp add: RequireParamValue_def)
  show "RequireParamValue ''minimum_gain_split'' (minimum_gain_split p)
      (\<lambda>x. double_less (Finite 0) x \<and> double_less x (Finite 1)) True
      ''gain split must be a fraction in range [0,1]'' msgs =
     (if \<exists>r. minimum_gain_split p = Finite r \<and> 0 < r \<and> r < 1 then Inr msgs
      else Inl (ConfigurationError [''minimum_gain_split'']
                  ''gain split must be a fraction in range [0,1]''))"
    unfolding RequireParamValue_def unit_interval by auto
next
  assume "(training p = None) \<noteq> (input_model p = None)"
  then have one: "((training p = None) = (input_model p = None)) = False"
    by simp
  show "(\<exists>m. check_parameters p = Inr m) \<longleftrightarrow>
            0 < sint (minimum_leaf_size p) \<and>
            (\<exists>r. minimum_gain_split p = Finite r \<and> 0 < r \<and> r < 1)"
    unfolding check_parameters_eq one unit_interval by auto
  {
    assume "\<not> 0 < sint (minimum_leaf_size p)"
    then show leaf: "check_parameters p =
        Inl (ConfigurationError [''minimum_leaf_size''] ''leaf size must be positive'')"
      unfolding check_parameters_eq one by simp
    then show "mlpackMain lib p =
        Inl (ConfigurationError [''minimum_leaf_size''] ''leaf size must be positive'')"
      by (rule mlpackMain_check_fails)
  }
  {
    assume "0 < sint (minimum_leaf_size p) \<and>
        \<not> (\<exists>r. minimum_gain_split p = Finite r \<and> 0 < r \<and> r < 1)"
    then show gain: "check_parameters p =
        Inl (ConfigurationError [''minimum_gain_split'']
               ''gain split must be a fraction in range [0,1]'')"
      unfolding check_parameters_eq one unit_interval by simp
    then show "mlpackMain lib p =
        Inl (ConfigurationError [''minimum_gain_split'']
               ''gain split must be a fraction in range [0,1]'')"
      by (rule mlpackMain_check_fails)
  }
qed

theorem hyperparameter_validation_witness:
  "(\<exists>msgs. check_parameters train_cli = Inr msgs) \<and>
   check_parameters (train_cli\<lparr>minimum_leaf_size := 0\<rparr>) =
     Inl (ConfigurationError [''minimum_leaf_size''] ''leaf size must be positive'') \<and>
   mlpackMain memo_library (train_cli\<lparr>minimum_leaf_size := - 3\<rparr>) =
     Inl (ConfigurationError [''minimum_leaf_size''] ''leaf size must be positive'') \<and>
   check_parameters (train_cli\<lparr>minimum_gain_split := Finite 1\<rparr>) =
     Inl (ConfigurationError [''minimum_gain_split'']
            ''gain split must be a fraction in range [0,1]'') \<and>
   check_parameters (train_cli\<lparr>minimum_gain_split := NaN\<rparr>) =
     Inl (ConfigurationError [''minimum_gain_split'']
            ''gain split must be a fraction in range [0,1]'')"
proof -
  have one: "(training (train_cli\<lparr>minimum_leaf_size := x, minimum_gain_split := y\<rparr>) = None) \<noteq>
      (input_model (train_cli\<lparr>minimum_leaf_size := x, minimum_gain_split := y\<rparr>) = None)"
    for x y
    by (simp add: train_cli_def)
  have same: "train_cli\<lparr>minimum_leaf_size := 1, minimum_gain_split := Finite (1 / 10000000)\<rparr> =
      train_cli"
    by (simp add: train_cli_def)
  have gain: "\<exists>r. minimum_gain_split train_cli = Finite r \<and> 0 < r \<and> r < 1"
    by (rule exI [of _ "1 / 10000000"]) (simp add: train_cli_def)
  have leaf: "0 < sint (minimum_leaf_size train_cli)"
    by (simp add: train_cli_def)
  have a: "\<exists>msgs. check_parameters train_cli = Inr msgs"
    using hyperparameter_validation [THEN conjunct2, THEN conjunct2, THEN mp,
        OF one [where x = 1 and y = "Finite (1 / 10000000)"], THEN conjunct1] gain leaf
    unfolding same by blast
  have b: "check_parameters (train_cli\<lparr>minimum_leaf_size := 0\<rparr>) =
     Inl (ConfigurationError [''minimum_leaf_size''] ''leaf size must be positive'')"
    using hyperparameter_validation [THEN conjunct2, THEN conjunct2, THEN mp,
        OF one [where x = 0 and y = "Finite (1 / 10000000)"], THEN conjunct2, THEN conjunct1]
    by (simp add: train_cli_def)
  have c: "mlpackMain memo_library (train_cli\<lparr>minimum_leaf_size := - 3\<rparr>) =
     Inl (ConfigurationError [''minimum_leaf_size''] ''leaf size must be positive'')"
    using hyperparameter_validation [where lib = memo_library,
        THEN conjunct2, THEN conjunct2, THEN mp,
        OF one [where x = "- 3" and y = "Finite (1 / 10000000)"],
        THEN conjunct2, THEN conjunct1]
    by (simp add: train_cli_def)
  have d: "check_parameters (train_cli\<lparr>minimum_gain_split := Finite 1\<rparr>) =
     Inl (ConfigurationError [''minimum_gain_split'']
            ''gain split must be a fraction in range [0,1]'')"
    using hyperparameter_validation [THEN conjunct2, THEN conjunct2, THEN mp,
        OF one [where x = 1 and y = "Finite 1"], THEN conjunct2, THEN conjunct2]
    by (simp add: train_cli_def)
  have e: "check_parameters (train_cli\<lparr>minimum_gain_split := NaN\<rparr>) =
     Inl (ConfigurationError [''minimum_gain_split'']
            ''gain split must be a fraction in range [0,1]'')"
    using hyperparameter_validation [THEN conjunct2, THEN conjunct2, THEN mp,
        OF one [where x = 1 and y = NaN], THEN conjunct2, THEN conjunct2]
    by (simp add: train_cli_def)
  from a b c d e show ?thesis by blast
qed

text \<open>
  C10.  The checks never warn that \<^verbatim>\<open>probabilities\<close> is ignored, and neither
  does a whole run; without a test set the warning for \<^verbatim>\<open>predictions\<close> is
  written twice when that output is requested.  A run without a test set
  never assigns \<^verbatim>\<open>probabilities\<close>, and it completes as soon as the checks pass
  and the model is there.
\<close>

theorem probabilities_never_reported:
  "(check_parameters p = Inr msgs \<longrightarrow>
      Warn_Ignored ''probabilities'' \<notin> set msgs \<and>
      (test p = None \<and> predictions_requested p \<longrightarrow>
         count_list msgs (Warn_Ignored ''predictions'') = 2)) \<and>
   (mlpackMain lib p = Inr out \<longrightarrow>
      Warn_Ignored ''probabilities'' \<notin> set (messages out) \<and>
      (test p = None \<longrightarrow> probabilities out = None)) \<and>
   (test p = None \<and> check_parameters p = Inr msgs \<and>
    build_model lib p msgs = Inr (model, msgs') \<longrightarrow>
      mlpackMain lib p =
        Inr \<lparr>test_info = None, predictions = None, probabilities = None,
             output_model = Some model, messages = msgs'\<rparr>)"
proof -
  have chk: "Warn_Ignored ''probabilities'' \<notin> set m"
    if "check_parameters p = Inr m" for m
    using that unfolding check_parameters_eq by (auto split: if_splits)
  have twice: "count_list msgs (Warn_Ignored ''predictions'') = 2"
    if "check_parameters p = Inr msgs" and "test p = None \<and> predictions_requested p"
    using that unfolding check_parameters_eq by (auto split: if_splits)
  have main: "Warn_Ignored ''probabilities'' \<notin> set (messages out) \<and>
      (test p = None \<longrightarrow> probabilities out = None)"
    if run: "mlpackMain lib p = Inr out"
  proof -
    from run obtain m0 mdl m1 out' where c: "check_parameters p = Inr m0"
      and b: "build_model lib p m0 = Inr (mdl, m1)"
      and t: "test_model lib p mdl m1 = Inr out'"
      and o: "out = out'\<lparr>output_model := Some mdl\<rparr>"
      by (rule mlpackMain_Inr)
    from build_model_messages [OF b] obtain e1
      where e1: "m1 = m0 @ e1" "\<forall>name. Warn_Ignored name \<notin> set e1" by blast
    from test_model_messages [OF t] obtain e2
      where e2: "messages out' = m1 @ e2" "\<forall>name. Warn_Ignored name \<notin> set e2" by blast
    from chk [OF c] e1 e2 o have "Warn_Ignored ''probabilities'' \<notin> set (messages out)"
      by simp
    moreover have "probabilities out = None" if "test p = None"
      using t o test_model_without_test [OF that, of lib mdl m1] by auto
    ultimately show ?thesis by blast
  qed
  have complete: "mlpackMain lib p =
        Inr \<lparr>test_info = None, predictions = None, probabilities = None,
             output_model = Some model, messages = msgs'\<rparr>"
    if "test p = None \<and> check_parameters p = Inr msgs \<and>
        build_model lib p msgs = Inr (model, msgs')"
    using that by (simp add: mlpackMain_def test_model_without_test)
  from chk twice main complete show ?thesis by blast
qed

theorem probabilities_never_reported_witness:
  "check_parameters (load_cli\<lparr>test := None\<rparr>) =
     Inr [Warn_Ignored ''test_labels'', Warn_Ignored ''predictions'',
          Warn_Ignored ''predictions''] \<and>
   probabilities_requested (load_cli\<lparr>test := None\<rparr>) \<and>
   Warn_Ignored ''probabilities'' \<notin>
     set [Warn_Ignored ''test_labels'', Warn_Ignored ''predictions'',
          Warn_Ignored ''predictions''] \<and>
   count_list [Warn_Ignored ''test_labels'', Warn_Ignored ''predictions'',
          Warn_Ignored ''predictions''] (Warn_Ignored ''predictions'') = 2 \<and>
   mlpackMain memo_library (load_cli\<lparr>test := None\<rparr>) =
     Inr \<lparr>test_info = None, predictions = None, probabilities = None,
          output_model = Some example_model,
          messages = [Warn_Ignored ''test_labels'', Warn_Ignored ''predictions'',
                      Warn_Ignored ''predictions'']\<rparr>"
proof -
  let ?p = "load_cli\<lparr>test := None\<rparr>"
  let ?w = "[Warn_Ignored ''test_labels'', Warn_Ignored ''predictions'',
          Warn_Ignored ''predictions'']"
  have h1: "check_parameters ?p = Inr ?w"
    by code_simp
  have h2: "test ?p = None" and h3: "predictions_requested ?p"
    and h4: "probabilities_requested ?p"
    by (simp_all add: load_cli_def)
  have h5: "build_model memo_library ?p ?w = Inr (example_model, ?w)"
    by code_simp
  from probabilities_never_reported [where p = ?p and msgs = ?w, THEN conjunct1] h1 h2 h3
  have a: "Warn_Ignored ''probabilities'' \<notin> set ?w \<and>
      count_list ?w (Warn_Ignored ''predictions'') = 2"
    by blast
  from probabilities_never_reported [where p = ?p and msgs = ?w and lib = memo_library
      and model = example_model and msgs' = ?w, THEN conjunct2, THEN conjunct2] h1 h2 h5
  have b: "mlpackMain memo_library ?p =
     Inr \<lparr>test_info = None, predictions = None, probabilities = None,
          output_model = Some example_model, messages = ?w\<rparr>"
    by blast
  from h1 h4 a b show ?thesis by blast
qed

subsection \<open>Testing\<close>

text \<open>
  C5, as amended.  Take a run with a test set.  Line 219 writes the dataset
  information of the model into the \<^verbatim>\<open>test\<close> parameter, and the points that
  are classified are read from the parameter after that.  When \<^verbatim>\<open>Classify\<close>
  fails, so does the test.  When it returns and there are no test labels, the
  predictions and the probabilities are written.  When there are test labels,
  they are written if reading the labels as a row returns and every test
  point has a prediction and a label, and otherwise the test ends in the error
  of the read or in an index out of bounds.  A test that returns has written
  all three, and the run that got as far as the test ends as the test does.
\<close>

theorem test_outputs:
  assumes "test p = Some (tinfo, T)"
  shows "overwrite_info (tinfo, T) model = (info model, T) \<and>
    (Classify lib (tree model) (snd (overwrite_info (tinfo, T) model)) = Inl err \<longrightarrow>
       test_model lib p model msgs = Inl err) \<and>
    (Classify lib (tree model) (snd (overwrite_info (tinfo, T) model)) = Inr (preds, probs) \<longrightarrow>
       (test_labels p = None \<longrightarrow>
          test_model lib p model msgs =
            Inr \<lparr>test_info = Some (fst (overwrite_info (tinfo, T) model)),
                 predictions = Some preds, probabilities = Some probs,
                 output_model = None, messages = msgs\<rparr>) \<and>
       (test_labels p = Some M \<and> GetParam_Row_of_Mat lib M = Inl err \<longrightarrow>
          test_model lib p model msgs = Inl err) \<and>
       (test_labels p = Some M \<and> GetParam_Row_of_Mat lib M = Inr L \<longrightarrow>
          test_model lib p model msgs =
            (if n_cols T \<le> length preds \<and> n_cols T \<le> length L \<or> n_cols T = 0
             then Inr \<lparr>test_info = Some (info model), predictions = Some preds,
                       probabilities = Some probs, output_model = None,
                       messages = msgs @
                         [Info_Correct ''test set''
                            (percent (length (filter (\<lambda>j. preds ! j = L ! j) [0..<n_cols T]))
                               (n_cols T))
                            (length (filter (\<lambda>j. preds ! j = L ! j) [0..<n_cols T]))
                            (n_cols T)]\<rparr>
             else Inl IndexOutOfBounds))) \<and>
    (test_model lib p model msgs = Inr out \<longrightarrow>
       test_info out = Some (info model) \<and>
       (\<exists>preds' probs'. Classify lib (tree model) T = Inr (preds', probs') \<and>
          predictions out = Some preds' \<and> probabilities out = Some probs')) \<and>
    (check_parameters p = Inr m0 \<and> build_model lib p m0 = Inr (model, m1) \<longrightarrow>
       mlpackMain lib p =
         (case test_model lib p model m1 of
            Inl e \<Rightarrow> Inl e
          | Inr out' \<Rightarrow> Inr (out'\<lparr>output_model := Some model\<rparr>)))"
proof -
  have o: "overwrite_info (tinfo, T) model = (info model, T)"
    by (simp add: overwrite_info_def)
  have f: "test_model lib p model msgs = Inl err"
    if "Classify lib (tree model) T = Inl err"
    using assms that by (rule test_model_fails)
  have n: "test_model lib p model msgs =
        Inr \<lparr>test_info = Some (info model), predictions = Some preds,
             probabilities = Some probs, output_model = None, messages = msgs\<rparr>"
    if "Classify lib (tree model) T = Inr (preds, probs)" and "test_labels p = None"
    using test_model_classified [OF assms that(1), of msgs] that(2) by simp
  have r: "test_model lib p model msgs = Inl err"
    if "Classify lib (tree model) T = Inr (preds, probs)"
      and "test_labels p = Some M \<and> GetParam_Row_of_Mat lib M = Inl err"
    using test_model_classified [OF assms that(1), of msgs] that(2) by simp
  have s: "test_model lib p model msgs =
        (if n_cols T \<le> length preds \<and> n_cols T \<le> length L \<or> n_cols T = 0
         then Inr \<lparr>test_info = Some (info model), predictions = Some preds,
                   probabilities = Some probs, output_model = None,
                   messages = msgs @
                     [Info_Correct ''test set''
                        (percent (length (filter (\<lambda>j. preds ! j = L ! j) [0..<n_cols T]))
                           (n_cols T))
                        (length (filter (\<lambda>j. preds ! j = L ! j) [0..<n_cols T]))
                        (n_cols T)]\<rparr>
         else Inl IndexOutOfBounds)"
    if "Classify lib (tree model) T = Inr (preds, probs)"
      and "test_labels p = Some M \<and> GetParam_Row_of_Mat lib M = Inr L"
    using test_model_classified [OF assms that(1), of msgs] that(2)
    by (simp add: test_accuracy_eq)
  have w: "test_info out = Some (info model) \<and>
       (\<exists>preds' probs'. Classify lib (tree model) T = Inr (preds', probs') \<and>
          predictions out = Some preds' \<and> probabilities out = Some probs')"
    if "test_model lib p model msgs = Inr out"
    using assms that by (rule test_model_Inr) blast
  have m: "mlpackMain lib p =
         (case test_model lib p model m1 of
            Inl e \<Rightarrow> Inl e
          | Inr out' \<Rightarrow> Inr (out'\<lparr>output_model := Some model\<rparr>))"
    if "check_parameters p = Inr m0 \<and> build_model lib p m0 = Inr (model, m1)"
    using that by (simp add: mlpackMain_def)
  from f n r s w m show ?thesis unfolding o fst_conv snd_conv by blast
qed

theorem test_outputs_witness:
  "mlpackMain lenient_library (load_cli\<lparr>test_labels := None\<rparr>) =
     Inr \<lparr>test_info = Some 1, predictions = Some [0, 0],
          probabilities = Some \<lparr>n_cols = 2, rows = []\<rparr>,
          output_model = Some example_model, messages = []\<rparr> \<and>
   mlpackMain lenient_library load_cli =
     Inr \<lparr>test_info = Some 1, predictions = Some [0, 0],
          probabilities = Some \<lparr>n_cols = 2, rows = []\<rparr>,
          output_model = Some example_model,
          messages = [Info_Correct ''test set'' (Finite 50) 1 2]\<rparr> \<and>
   test_model failing_library load_cli example_model [] = Inl (ClassifierError ''Classify'') \<and>
   test_model memo_library load_cli example_model [] = Inl (BadParameterType ''test_labels'') \<and>
   (\<exists>preds probs.
      Classify lenient_library (tree example_model) example_test = Inr (preds, probs) \<and>
      Some [0, 0] = Some preds \<and> Some \<lparr>n_cols = 2, rows = []\<rparr> = Some probs)"
proof -
  let ?none = "load_cli\<lparr>test_labels := None\<rparr>"
  let ?M = "\<lparr>umat_n_cols = 2, umat_rows = [ [0, 1] ]\<rparr>"
  have t: "test load_cli = Some (7, example_test)" "test ?none = Some (7, example_test)"
    by (simp_all add: load_cli_def)
  have l: "test_labels load_cli = Some ?M" "test_labels ?none = None"
    by (simp_all add: load_cli_def)
  have o: "overwrite_info (7, example_test) example_model = (1, example_test)"
    using test_outputs [OF t(1), where model = example_model, THEN conjunct1]
    by (simp add: example_model_def)
  have c: "Classify lenient_library (tree example_model) example_test =
      Inr ([0, 0], \<lparr>n_cols = 2, rows = []\<rparr>)"
    "Classify memo_library (tree example_model) example_test =
      Inr ([0, 0], \<lparr>n_cols = 2, rows = []\<rparr>)"
    by code_simp+
  have cf: "Classify failing_library (tree example_model) example_test =
      Inl (ClassifierError ''Classify'')"
    by (simp add: failing_library_def)
  have g: "GetParam_Row_of_Mat lenient_library ?M = Inr [0, 1]"
    "GetParam_Row_of_Mat memo_library ?M = Inl (BadParameterType ''test_labels'')"
    by (simp_all add: lenient_library_def memo_library_def)
  have k: "check_parameters load_cli = Inr []" "check_parameters ?none = Inr []"
    by code_simp+
  have b: "build_model lenient_library load_cli [] = Inr (example_model, [])"
    "build_model lenient_library ?none [] = Inr (example_model, [])"
    by (simp_all add: build_model_def load_cli_def)
  have p50: "percent (Suc 0) 2 = Finite 50"
    by code_simp
  have cnt: "filter (\<lambda>j. [0, 0 :: uword] ! j = [0, 1] ! j) [0..<2] = [0]"
    by code_simp
  have n2: "n_cols example_test = 2" "info example_model = 1"
    by (simp_all add: example_test_def example_model_def)
  have t0: "test_model lenient_library ?none example_model [] =
      Inr \<lparr>test_info = Some 1, predictions = Some [0, 0],
           probabilities = Some \<lparr>n_cols = 2, rows = []\<rparr>,
           output_model = None, messages = []\<rparr>"
    using test_outputs [OF t(2), where model = example_model and lib = lenient_library
        and preds = "[0, 0]" and probs = "\<lparr>n_cols = 2, rows = []\<rparr>" and msgs = "[]",
        THEN conjunct2, THEN conjunct2, THEN conjunct1, THEN mp, THEN conjunct1] c(1) l(2) o
    by simp
  have t1: "test_model lenient_library load_cli example_model [] =
      Inr \<lparr>test_info = Some 1, predictions = Some [0, 0],
           probabilities = Some \<lparr>n_cols = 2, rows = []\<rparr>,
           output_model = None, messages = [Info_Correct ''test set'' (Finite 50) 1 2]\<rparr>"
    using test_outputs [OF t(1), where model = example_model and lib = lenient_library
        and preds = "[0, 0]" and probs = "\<lparr>n_cols = 2, rows = []\<rparr>" and msgs = "[]"
        and M = ?M and L = "[0, 1]",
        THEN conjunct2, THEN conjunct2, THEN conjunct1, THEN mp,
        THEN conjunct2, THEN conjunct2] c(1) l(1) g(1) o
    by (simp add: n2 cnt p50)
  have r0: "mlpackMain lenient_library ?none =
     Inr \<lparr>test_info = Some 1, predictions = Some [0, 0],
          probabilities = Some \<lparr>n_cols = 2, rows = []\<rparr>,
          output_model = Some example_model, messages = []\<rparr>"
    using test_outputs [OF t(2), where model = example_model and lib = lenient_library
        and ?m0.0 = "[]" and ?m1.0 = "[]",
        THEN conjunct2, THEN conjunct2, THEN conjunct2, THEN conjunct2] k(2) b(2)
    by (simp add: t0)
  have r1: "mlpackMain lenient_library load_cli =
     Inr \<lparr>test_info = Some 1, predictions = Some [0, 0],
          probabilities = Some \<lparr>n_cols = 2, rows = []\<rparr>,
          output_model = Some example_model,
          messages = [Info_Correct ''test set'' (Finite 50) 1 2]\<rparr>"
    using test_outputs [OF t(1), where model = example_model and lib = lenient_library
        and ?m0.0 = "[]" and ?m1.0 = "[]",
        THEN conjunct2, THEN conjunct2, THEN conjunct2, THEN conjunct2] k(1) b(1)
    by (simp add: t1)
  have f: "test_model failing_library load_cli example_model [] =
      Inl (ClassifierError ''Classify'')"
    using test_outputs [OF t(1), where model = example_model and lib = failing_library
        and err = "ClassifierError ''Classify''" and msgs = "[]",
        THEN conjunct2, THEN conjunct1] cf o
    by simp
  have s: "test_model memo_library load_cli example_model [] =
      Inl (BadParameterType ''test_labels'')"
    using test_outputs [OF t(1), where model = example_model and lib = memo_library
        and preds = "[0, 0]" and probs = "\<lparr>n_cols = 2, rows = []\<rparr>" and msgs = "[]"
        and M = ?M and err = "BadParameterType ''test_labels''",
        THEN conjunct2, THEN conjunct2, THEN conjunct1, THEN mp,
        THEN conjunct2, THEN conjunct1] c(2) l(1) g(2) o
    by simp
  have w: "\<exists>preds probs.
      Classify lenient_library (tree example_model) example_test = Inr (preds, probs) \<and>
      Some [0, 0] = Some preds \<and> Some \<lparr>n_cols = 2, rows = []\<rparr> = Some probs"
    using test_outputs [OF t(1), where model = example_model and lib = lenient_library
        and msgs = "[]"
        and out = "\<lparr>test_info = Some 1, predictions = Some [0, 0],
           probabilities = Some \<lparr>n_cols = 2, rows = []\<rparr>,
           output_model = None, messages = [Info_Correct ''test set'' (Finite 50) 1 2]\<rparr>",
        THEN conjunct2, THEN conjunct2, THEN conjunct2, THEN conjunct1, THEN mp, OF t1,
        THEN conjunct2]
    by simp
  from r0 r1 f s w show ?thesis by blast
qed

text \<open>
  C5, as stated, asks for the outputs whether or not test labels were passed,
  in every run with a test set.  With a parameter store that hands out the
  labels, labels for one of two test points end the run at the index 1, where
  the run without labels writes the outputs; with a store that refuses the
  read of line 231 the run with labels ends there.  A classifier that fails
  and a run whose checks fail leave no outputs either.
\<close>

theorem test_outputs_counterexample:
  "mlpackMain lenient_library (load_cli\<lparr>test_labels := None\<rparr>) =
     Inr \<lparr>test_info = Some 1, predictions = Some [0, 0],
          probabilities = Some \<lparr>n_cols = 2, rows = []\<rparr>,
          output_model = Some example_model, messages = []\<rparr> \<and>
   mlpackMain lenient_library
      (load_cli\<lparr>test_labels := Some \<lparr>umat_n_cols = 1, umat_rows = [ [0] ]\<rparr>\<rparr>) =
     Inl IndexOutOfBounds \<and>
   mlpackMain memo_library (load_cli\<lparr>test_labels := None\<rparr>) =
     Inr \<lparr>test_info = Some 1, predictions = Some [0, 0],
          probabilities = Some \<lparr>n_cols = 2, rows = []\<rparr>,
          output_model = Some example_model, messages = []\<rparr> \<and>
   mlpackMain memo_library load_cli = Inl (BadParameterType ''test_labels'') \<and>
   mlpackMain failing_library (load_cli\<lparr>test_labels := None\<rparr>) =
     Inl (ClassifierError ''Classify'') \<and>
   mlpackMain memo_library (load_cli\<lparr>test_labels := None, input_model := None\<rparr>) =
     Inl (ConfigurationError [''training'', ''input_model''] ''pass exactly one'')"
  by code_simp

subsection \<open>Serialization\<close>

text \<open>
  C6.  With serializers of the tree and of the dataset information that read
  back what they wrote, a saved model is loaded as the same model, so both
  classify every test set alike.
\<close>

theorem serialization_roundtrip:
  assumes "roundtrip (save_tree s) (load_tree s)" and "roundtrip (save_info s) (load_info s)"
  shows "save_model s model = Some (save_tree s (tree model) @ save_info s (info model)) \<and>
         (\<exists>bytes loaded.
            save_model s model = Some bytes \<and>
            load_model s bytes fresh = Some loaded \<and>
            loaded = fresh\<lparr>tree := tree model, info := info model\<rparr> \<and>
            tree loaded = tree model \<and> info loaded = info model \<and>
            Classify lib (tree loaded) X = Classify lib (tree model) X)"
proof -
  let ?bytes = "save_tree s (tree model) @ save_info s (info model)"
  have sv: "serialize s (Saving []) model = Some (Saving ?bytes, model)"
    by (simp add: serialize_def ar_amp_saving)
  then have a: "save_model s model = Some ?bytes"
    by (simp add: save_model_def)
  have l1: "ar_amp (save_tree s) (load_tree s) (Loading ?bytes) (tree fresh) =
      Some (Loading (save_info s (info model)), tree model)"
    using assms(1) by (rule ar_amp_loading)
  have l2: "ar_amp (save_info s) (load_info s) (Loading (save_info s (info model))) (info fresh) =
      Some (Loading [], info model)"
    using ar_amp_loading [OF assms(2), of "info model" "[]" "info fresh"] by simp
  have "serialize s (Loading ?bytes) fresh =
      Some (Loading [], fresh\<lparr>tree := tree model, info := info model\<rparr>)"
    by (simp add: serialize_def l1 l2)
  then have b: "load_model s ?bytes fresh = Some (fresh\<lparr>tree := tree model, info := info model\<rparr>)"
    by (simp add: load_model_def)
  from a b show ?thesis by simp
qed

theorem serialization_roundtrip_witness:
  "save_model memo_archiver example_model = Some [4, 0, 0, 1, 1, 1] \<and>
   load_model memo_archiver [4, 0, 0, 1, 1, 1] \<lparr>tree = [], info = 0\<rparr> = Some example_model \<and>
   Classify memo_library (tree example_model) example_test = Inr ([0, 0], example_test\<lparr>rows := []\<rparr>)"
proof -
  have s: "save_tree memo_archiver (tree example_model) @
      save_info memo_archiver (info example_model) = [4, 0, 0, 1, 1, 1]"
    by (simp add: memo_archiver_def example_model_def)
  have f: "\<lparr>tree = [], info = 0\<rparr>\<lparr>tree := tree example_model, info := info example_model\<rparr> =
      example_model"
    by (simp add: example_model_def)
  have c: "Classify memo_library (tree example_model) example_test =
      Inr ([0, 0], example_test\<lparr>rows := []\<rparr>)"
    by code_simp
  from serialization_roundtrip [OF memo_archiver_roundtrip, of example_model
      "\<lparr>tree = [], info = 0\<rparr>" memo_library example_test] s f c
  show ?thesis by auto
qed

subsection \<open>The training error\<close>

text \<open>
  C7, as amended.  Take a run that trains and prints the training error.  The
  arguments of the constructor and the model are those of the run without the
  flag.  The report returns exactly when \<^verbatim>\<open>Classify\<close> returns on the training
  set and there is a prediction and a label for every column; when it fails,
  the run ends in its error.  When it returns, the messages of the model differ
  by the report alone and the whole run ends as the run without the flag does:
  in the same error, or with the same outputs and the report among the
  messages.  The report gives the number of columns on which prediction and
  label agree, the number of columns, and the quotient of the two times 100 as
  computed in \<^verbatim>\<open>double\<close>: not a number when there is no column, and otherwise
  within the \<open>2 ^ 50\<close>th part of the exact percentage.
\<close>

theorem training_report_frame:
  assumes "training p = Some (dinfo, X)" and "print_training_error p"
    and "check_parameters p = Inr m0"
    and "train_arguments lib p dinfo X m0 = Inr (args, m1)"
    and "DecisionTree lib args = Inr t"
  shows "train_arguments lib (p\<lparr>print_training_error := False\<rparr>) dinfo X m0 = Inr (args, m1) \<and>
    build_model lib (p\<lparr>print_training_error := False\<rparr>) m0 =
      Inr (\<lparr>tree = t, info = dinfo\<rparr>, m1) \<and>
    ((\<exists>r. training_error lib t (arg_data args) (arg_labels args) = Inr r) \<longleftrightarrow>
       (\<exists>preds probs. Classify lib t (arg_data args) = Inr (preds, probs) \<and>
          (n_cols (arg_data args) \<le> length preds \<and>
           n_cols (arg_data args) \<le> length (arg_labels args) \<or>
           n_cols (arg_data args) = 0))) \<and>
    (training_error lib t (arg_data args) (arg_labels args) = Inl err \<longrightarrow>
       build_model lib p m0 = Inl err \<and> mlpackMain lib p = Inl err) \<and>
    (training_error lib t (arg_data args) (arg_labels args) = Inr report \<longrightarrow>
       build_model lib p m0 = Inr (\<lparr>tree = t, info = dinfo\<rparr>, m1 @ [report]) \<and>
       (case mlpackMain lib (p\<lparr>print_training_error := False\<rparr>) of
          Inl e \<Rightarrow> mlpackMain lib p = Inl e
        | Inr out \<Rightarrow>
            (\<exists>rest. messages out = m1 @ rest \<and>
               mlpackMain lib p = Inr (out\<lparr>messages := m1 @ [report] @ rest\<rparr>))) \<and>
       (\<exists>preds probs v.
          Classify lib t (arg_data args) = Inr (preds, probs) \<and>
          report = Info_Correct ''training set'' v
            (length (filter (\<lambda>i. preds ! i = arg_labels args ! i)
                       [0..<n_cols (arg_data args)]))
            (n_cols (arg_data args)) \<and>
          v = double_times
                (double_divide
                   (double_of_nat (length (filter (\<lambda>i. preds ! i = arg_labels args ! i)
                                             [0..<n_cols (arg_data args)])))
                   (double_of_nat (n_cols (arg_data args))))
                (Finite 100) \<and>
          (n_cols (arg_data args) = 0 \<longrightarrow> v = NaN) \<and>
          (0 < n_cols (arg_data args) \<and> n_cols (arg_data args) < 2 ^ 64 \<longrightarrow>
             (\<exists>r. v = Finite r \<and>
                \<bar>r - 100 * real (length (filter (\<lambda>i. preds ! i = arg_labels args ! i)
                                            [0..<n_cols (arg_data args)])) /
                       real (n_cols (arg_data args))\<bar>
                \<le> 100 * real (length (filter (\<lambda>i. preds ! i = arg_labels args ! i)
                                           [0..<n_cols (arg_data args)])) /
                      real (n_cols (arg_data args)) / 2 ^ 50))))"
proof -
  let ?q = "p\<lparr>print_training_error := False\<rparr>"
  let ?model = "\<lparr>tree = t, info = dinfo\<rparr>"
  let ?X = "arg_data args"
  let ?L = "arg_labels args"
  have a2: "train_arguments lib ?q dinfo X m0 = Inr (args, m1)"
    using assms(4) by (simp add: train_arguments_print)
  have b2: "build_model lib ?q m0 = Inr (?model, m1)"
    using assms by (simp add: build_model_def train_arguments_print)
  have c2: "check_parameters ?q = Inr m0"
    using assms(3) by (simp add: check_parameters_print [OF assms(1)])
  have returns: "(\<exists>r. training_error lib t ?X ?L = Inr r) \<longleftrightarrow>
       (\<exists>preds probs. Classify lib t ?X = Inr (preds, probs) \<and>
          (n_cols ?X \<le> length preds \<and> n_cols ?X \<le> length ?L \<or> n_cols ?X = 0))"
  proof (cases "Classify lib t ?X")
    case (Inl e)
    then show ?thesis by (simp add: training_error_fails)
  next
    case (Inr pp)
    then obtain preds probs where "Classify lib t ?X = Inr (preds, probs)"
      by (cases pp) simp
    then show ?thesis by (simp add: training_error_eq)
  qed
  have fails: "build_model lib p m0 = Inl err \<and> mlpackMain lib p = Inl err"
    if "training_error lib t ?X ?L = Inl err"
  proof -
    have "build_model lib p m0 = Inl err"
      using assms that by (simp add: build_model_def)
    then show ?thesis by (simp add: mlpackMain_def assms(3))
  qed
  have b1: "build_model lib p m0 = Inr (?model, m1 @ [report])"
    if "training_error lib t ?X ?L = Inr report"
    using assms that by (simp add: build_model_def)
  have frame: "(case mlpackMain lib ?q of
            Inl e \<Rightarrow> mlpackMain lib p = Inl e
          | Inr out \<Rightarrow>
              (\<exists>rest. messages out = m1 @ rest \<and>
                 mlpackMain lib p = Inr (out\<lparr>messages := m1 @ [report] @ rest\<rparr>)))"
    if h: "training_error lib t ?X ?L = Inr report"
  proof -
    have r1: "mlpackMain lib p =
        (case test_model lib p ?model (m1 @ [report]) of
           Inl e \<Rightarrow> Inl e
         | Inr out \<Rightarrow> Inr (out\<lparr>output_model := Some ?model\<rparr>))"
      by (simp add: mlpackMain_def assms(3) b1 [OF h])
    have r2: "mlpackMain lib ?q =
        (case test_model lib p ?model m1 of
           Inl e \<Rightarrow> Inl e
         | Inr out \<Rightarrow> Inr (out\<lparr>output_model := Some ?model\<rparr>))"
      by (simp add: mlpackMain_def c2 b2 test_model_print)
    show ?thesis
    proof (cases "test_model lib p ?model []")
      case (Inl e)
      then have "test_model lib p ?model (m1 @ [report]) = Inl e"
        and "test_model lib p ?model m1 = Inl e"
        by (simp_all add: test_model_prefix [of lib p ?model "m1 @ [report]"]
              test_model_prefix [of lib p ?model m1])
      then show ?thesis by (simp add: r1 r2)
    next
      case (Inr out0)
      then have "test_model lib p ?model (m1 @ [report]) =
          Inr (out0\<lparr>messages := (m1 @ [report]) @ messages out0\<rparr>)"
        and "test_model lib p ?model m1 = Inr (out0\<lparr>messages := m1 @ messages out0\<rparr>)"
        by (simp_all add: test_model_prefix [of lib p ?model "m1 @ [report]"]
              test_model_prefix [of lib p ?model m1])
      then show ?thesis by (simp add: r1 r2)
    qed
  qed
  have reported: "\<exists>preds probs v.
          Classify lib t ?X = Inr (preds, probs) \<and>
          report = Info_Correct ''training set'' v
            (length (filter (\<lambda>i. preds ! i = ?L ! i) [0..<n_cols ?X])) (n_cols ?X) \<and>
          v = double_times
                (double_divide
                   (double_of_nat (length (filter (\<lambda>i. preds ! i = ?L ! i) [0..<n_cols ?X])))
                   (double_of_nat (n_cols ?X)))
                (Finite 100) \<and>
          (n_cols ?X = 0 \<longrightarrow> v = NaN) \<and>
          (0 < n_cols ?X \<and> n_cols ?X < 2 ^ 64 \<longrightarrow>
             (\<exists>r. v = Finite r \<and>
                \<bar>r - 100 * real (length (filter (\<lambda>i. preds ! i = ?L ! i) [0..<n_cols ?X])) /
                       real (n_cols ?X)\<bar>
                \<le> 100 * real (length (filter (\<lambda>i. preds ! i = ?L ! i) [0..<n_cols ?X])) /
                      real (n_cols ?X) / 2 ^ 50))"
    if h: "training_error lib t ?X ?L = Inr report"
  proof -
    from h obtain preds probs where cl: "Classify lib t ?X = Inr (preds, probs)"
      and r: "report = Info_Correct ''training set''
           (percent (length (filter (\<lambda>i. preds ! i = ?L ! i) [0..<n_cols ?X])) (n_cols ?X))
           (length (filter (\<lambda>i. preds ! i = ?L ! i) [0..<n_cols ?X])) (n_cols ?X)"
      by (rule training_error_value)
    define c where "c = length (filter (\<lambda>i. preds ! i = ?L ! i) [0..<n_cols ?X])"
    define n where "n = n_cols ?X"
    have le: "c \<le> n"
      unfolding c_def n_def using length_filter_le [of _ "[0..<n_cols ?X]"] by simp
    have z: "percent c n = NaN" if "n = 0"
      using le that by (simp add: percent_no_columns)
    have b: "\<exists>r. percent c n = Finite r \<and>
        \<bar>r - 100 * real c / real n\<bar> \<le> 100 * real c / real n / 2 ^ 50"
      if "0 < n \<and> n < 2 ^ 64"
    proof -
      from that have "0 < n" and "n < 2 ^ 64" by simp_all
      from percent_close [OF this le] show ?thesis by blast
    qed
    have "report = Info_Correct ''training set'' (percent c n) c n"
      using r by (simp add: c_def n_def)
    moreover have "percent c n =
        double_times (double_divide (double_of_nat c) (double_of_nat n)) (Finite 100)"
      by (simp add: percent_def)
    ultimately have "\<exists>v. Classify lib t ?X = Inr (preds, probs) \<and>
        report = Info_Correct ''training set'' v c n \<and>
        v = double_times (double_divide (double_of_nat c) (double_of_nat n)) (Finite 100) \<and>
        (n = 0 \<longrightarrow> v = NaN) \<and>
        (0 < n \<and> n < 2 ^ 64 \<longrightarrow>
           (\<exists>r. v = Finite r \<and>
              \<bar>r - 100 * real c / real n\<bar> \<le> 100 * real c / real n / 2 ^ 50))"
      using cl z b by (intro exI [of _ "percent c n"] conjI impI) assumption+
    then show ?thesis
      unfolding c_def n_def by (intro exI [of _ preds] exI [of _ probs])
  qed
  from a2 b2 returns fails b1 frame reported show ?thesis by blast
qed

theorem training_report_frame_witness:
  "mlpackMain zero_library (train_cli\<lparr>training := Some (2, three_training)\<rparr>) =
     Inr \<lparr>test_info = None, predictions = None, probabilities = None,
          output_model = Some \<lparr>tree = [0, 1, 1], info = 2\<rparr>,
          messages = [Info_LastDimension,
            Info_Correct ''training set'' (Finite (4691249611844266 / 140737488355328)) 1 3]\<rparr> \<and>
   mlpackMain zero_library
      (train_cli\<lparr>training := Some (2, three_training), print_training_error := False\<rparr>) =
     Inr \<lparr>test_info = None, predictions = None, probabilities = None,
          output_model = Some \<lparr>tree = [0, 1, 1], info = 2\<rparr>,
          messages = [Info_LastDimension]\<rparr> \<and>
   \<bar>4691249611844266 / 140737488355328 - 100 * real 1 / real 3\<bar>
     \<le> 100 * real 1 / real 3 / 2 ^ 50 \<and>
   mlpackMain failing_library train_cli = Inl (ClassifierError ''Classify'') \<and>
   build_model memo_library
      (train_cli\<lparr>training := Some (2, \<lparr>n_cols = 0, rows = []\<rparr>), labels := Some [0]\<rparr>) [] =
     Inr (\<lparr>tree = [0], info = 2\<rparr>, [Info_Correct ''training set'' NaN 0 0])"
proof -
  let ?p = "train_cli\<lparr>training := Some (2, three_training)\<rparr>"
  let ?X = "\<lparr>n_cols = 3, rows = [ [Finite 1, Finite 2, Finite 3] ]\<rparr>"
  let ?args = "\<lparr>arg_data = ?X, arg_info = 2 :: nat, arg_labels = [0, 1, 1],
      arg_numClasses = 2, arg_weights = None, arg_minLeafSize = 1,
      arg_minimumGainSplit = Finite (1 / 10000000)\<rparr>"
  let ?v = "Finite (4691249611844266 / 140737488355328)"
  let ?report = "Info_Correct ''training set'' ?v 1 3"
  have h1: "training ?p = Some (2, three_training)" and h2: "print_training_error ?p"
    by (simp_all add: train_cli_def)
  have h3: "check_parameters ?p = Inr []"
    by code_simp
  have h4: "train_arguments zero_library ?p 2 three_training [] =
      Inr (?args, [Info_LastDimension])"
    by code_simp
  have h5: "DecisionTree zero_library ?args = Inr [0, 1, 1]"
    by (simp add: zero_library_def memo_library_def)
  have h6: "training_error zero_library [0, 1, 1] (arg_data ?args) (arg_labels ?args) =
      Inr ?report"
    by code_simp
  have cl: "Classify zero_library [0, 1, 1] ?X = Inr ([0, 0, 0], \<lparr>n_cols = 3, rows = []\<rparr>)"
    by code_simp
  have cnt: "length (filter (\<lambda>i. [0, 0, 0 :: uword] ! i = [0, 1, 1] ! i) [0..<3]) = 1"
    by code_simp
  have quiet: "mlpackMain zero_library (?p\<lparr>print_training_error := False\<rparr>) =
     Inr \<lparr>test_info = None, predictions = None, probabilities = None,
          output_model = Some \<lparr>tree = [0, 1, 1], info = 2\<rparr>,
          messages = [Info_LastDimension]\<rparr>"
    by code_simp
  note frame = training_report_frame [OF h1 h2 h3 h4 h5, where report = ?report,
      THEN conjunct2, THEN conjunct2, THEN conjunct2, THEN conjunct2, THEN mp, OF h6]
  from frame [THEN conjunct2, THEN conjunct1]
  have a: "mlpackMain zero_library ?p =
     Inr \<lparr>test_info = None, predictions = None, probabilities = None,
          output_model = Some \<lparr>tree = [0, 1, 1], info = 2\<rparr>,
          messages = [Info_LastDimension, ?report]\<rparr>"
    unfolding quiet by simp
  from frame [THEN conjunct2, THEN conjunct2]
  have b: "\<bar>4691249611844266 / 140737488355328 - 100 * real 1 / real 3\<bar>
      \<le> 100 * real 1 / real 3 / 2 ^ 50"
    by (auto simp: cl cnt)
  have f1: "training train_cli = Some (2, example_training)"
    and f2: "print_training_error train_cli"
    by (simp_all add: train_cli_def)
  let ?fargs = "\<lparr>arg_data = \<lparr>n_cols = 4, rows = [ [Finite 1, Finite 2, Finite 3, Finite 4] ]\<rparr>,
      arg_info = 2 :: nat, arg_labels = [0, 0, 1, 1], arg_numClasses = 2, arg_weights = None,
      arg_minLeafSize = 1, arg_minimumGainSplit = Finite (1 / 10000000)\<rparr>"
  have f3: "check_parameters train_cli = Inr []"
    by code_simp
  have f4: "train_arguments failing_library train_cli 2 example_training [] =
      Inr (?fargs, [Info_LastDimension])"
    by code_simp
  have f5: "DecisionTree failing_library ?fargs = Inr [0, 0, 1, 1]"
    by (simp add: failing_library_def memo_library_def)
  have f6: "training_error failing_library [0, 0, 1, 1] (arg_data ?fargs) (arg_labels ?fargs) =
      Inl (ClassifierError ''Classify'')"
    by (simp add: training_error_def failing_library_def)
  have c: "mlpackMain failing_library train_cli = Inl (ClassifierError ''Classify'')"
    using training_report_frame [OF f1 f2 f3 f4 f5, where err = "ClassifierError ''Classify''",
        THEN conjunct2, THEN conjunct2, THEN conjunct2, THEN conjunct1, THEN mp, OF f6]
    by simp
  let ?z = "train_cli\<lparr>training := Some (2, \<lparr>n_cols = 0, rows = []\<rparr>), labels := Some [0]\<rparr>"
  let ?zargs = "\<lparr>arg_data = \<lparr>n_cols = 0, rows = []\<rparr>,
      arg_info = 2 :: nat, arg_labels = [0], arg_numClasses = 1, arg_weights = None,
      arg_minLeafSize = 1, arg_minimumGainSplit = Finite (1 / 10000000)\<rparr>"
  have z1: "training ?z = Some (2, \<lparr>n_cols = 0, rows = []\<rparr>)"
    and z2: "print_training_error ?z"
    by (simp_all add: train_cli_def)
  have z3: "check_parameters ?z = Inr []"
    by code_simp
  have z4: "train_arguments memo_library ?z 2 \<lparr>n_cols = 0, rows = []\<rparr> [] = Inr (?zargs, [])"
    by code_simp
  have z5: "DecisionTree memo_library ?zargs = Inr [0]"
    by (simp add: memo_library_def)
  have z6: "\<exists>r. training_error memo_library [0] (arg_data ?zargs) (arg_labels ?zargs) = Inr r"
    using training_report_frame [OF z1 z2 z3 z4 z5, THEN conjunct2, THEN conjunct2,
        THEN conjunct1]
    by (simp add: memo_library_def)
  then obtain r where z7:
    "training_error memo_library [0] (arg_data ?zargs) (arg_labels ?zargs) = Inr r" ..
  note zero = training_report_frame [OF z1 z2 z3 z4 z5, where report = r,
      THEN conjunct2, THEN conjunct2, THEN conjunct2, THEN conjunct2, THEN mp, OF z7]
  from zero [THEN conjunct2, THEN conjunct2]
  have "r = Info_Correct ''training set'' NaN 0 0"
    by auto
  with zero [THEN conjunct1]
  have d: "build_model memo_library ?z [] =
     Inr (\<lparr>tree = [0], info = 2\<rparr>, [Info_Correct ''training set'' NaN 0 0])"
    by simp
  from a quiet b c d show ?thesis by blast
qed

text \<open>
  C7, as stated, has the report leave the course of every run alone.  With two
  labels for four columns the run with the flag ends in an index out of
  bounds and the run without it returns the model; with a classifier that
  fails, the run with the flag ends in its error.  And the reported value is
  rounded: for one column of three it is not \<open>100 / 3\<close>.
\<close>

theorem training_report_frame_counterexample:
  "mlpackMain memo_library (train_cli\<lparr>labels := Some [0, 1]\<rparr>) = Inl IndexOutOfBounds \<and>
   mlpackMain memo_library (train_cli\<lparr>labels := Some [0, 1], print_training_error := False\<rparr>) =
     Inr \<lparr>test_info = None, predictions = None, probabilities = None,
          output_model = Some \<lparr>tree = [0, 1], info = 2\<rparr>, messages = []\<rparr> \<and>
   mlpackMain failing_library train_cli = Inl (ClassifierError ''Classify'') \<and>
   mlpackMain failing_library (train_cli\<lparr>print_training_error := False\<rparr>) =
     Inr \<lparr>test_info = None, predictions = None, probabilities = None,
          output_model = Some \<lparr>tree = [0, 0, 1, 1], info = 2\<rparr>,
          messages = [Info_LastDimension]\<rparr> \<and>
   mlpackMain zero_library (train_cli\<lparr>training := Some (2, three_training)\<rparr>) =
     Inr \<lparr>test_info = None, predictions = None, probabilities = None,
          output_model = Some \<lparr>tree = [0, 1, 1], info = 2\<rparr>,
          messages = [Info_LastDimension,
            Info_Correct ''training set'' (Finite (4691249611844266 / 140737488355328)) 1 3]\<rparr> \<and>
   (4691249611844266 / 140737488355328 :: real) \<noteq> 100 * 1 / 3"
  by code_simp

subsection \<open>Indices\<close>

text \<open>
  C8.  Without the parameter \<^verbatim>\<open>labels\<close>, the row with index \<^verbatim>\<open>n_rows - 1\<close> is
  read.  That row exists exactly when the training set has a row; it is then
  the last one.  For a training set without rows the index wraps around to
  \<open>2 ^ 64 - 1\<close>, the access is outside the matrix, and the model is not built.
\<close>

theorem last_row_access:
  assumes "labels p = None" and "length (rows X) < 2 ^ 64"
  shows "((\<exists>r. row X (n_rows X - 1) = Inr r) \<longleftrightarrow> rows X \<noteq> []) \<and>
         (rows X \<noteq> [] \<longrightarrow>
            unat (n_rows X - 1) = length (rows X) - 1 \<and>
            row X (n_rows X - 1) = Inr (last (rows X))) \<and>
         (rows X = [] \<longrightarrow>
            unat (n_rows X - 1) = 2 ^ 64 - 1 \<and>
            row X (n_rows X - 1) = Inl IndexOutOfBounds \<and>
            resolve_labels lib p X msgs = Inl IndexOutOfBounds \<and>
            train_arguments lib p dinfo X msgs = Inl IndexOutOfBounds) \<and>
         (rows X = [] \<and> training p = Some (dinfo, X) \<longrightarrow>
            build_model lib p msgs = Inl IndexOutOfBounds)"
proof -
  have some: "rows X \<noteq> [] \<Longrightarrow> row X (n_rows X - 1) = Inr (last (rows X))"
    using assms(2) by (rule row_last)
  have idx: "rows X \<noteq> [] \<Longrightarrow> unat (n_rows X - 1) = length (rows X) - 1"
    using unat_last_index [OF assms(2)] by (simp add: n_rows_def)
  have none: "rows X = [] \<Longrightarrow> row X (n_rows X - 1) = Inl IndexOutOfBounds"
    by (rule row_no_rows)
  have under: "rows X = [] \<Longrightarrow> unat (n_rows X - 1) = 2 ^ 64 - 1"
    using unat_no_rows by (simp add: n_rows_def)
  have res: "rows X = [] \<Longrightarrow> resolve_labels lib p X msgs = Inl IndexOutOfBounds"
    using assms(1) none by (simp add: resolve_labels_def)
  have args: "rows X = [] \<Longrightarrow> train_arguments lib p dinfo X msgs = Inl IndexOutOfBounds"
    using res by (simp add: train_arguments_def)
  have build: "rows X = [] \<and> training p = Some (dinfo, X) \<Longrightarrow>
      build_model lib p msgs = Inl IndexOutOfBounds"
    using args by (simp add: build_model_def)
  have iff: "(\<exists>r. row X (n_rows X - 1) = Inr r) \<longleftrightarrow> rows X \<noteq> []"
    using some none by (cases "rows X = []") auto
  from iff some idx none under res args build show ?thesis by blast
qed

theorem last_row_access_witness:
  "row example_training (n_rows example_training - 1) =
     Inr [Finite 0, Finite 0, Finite 1, Finite 1] \<and>
   unat (n_rows \<lparr>n_cols = 3, rows = []\<rparr> - 1) = 18446744073709551615 \<and>
   row \<lparr>n_cols = 3, rows = []\<rparr> (n_rows \<lparr>n_cols = 3, rows = []\<rparr> - 1) = Inl IndexOutOfBounds \<and>
   build_model memo_library (train_cli\<lparr>training := Some (2, \<lparr>n_cols = 3, rows = []\<rparr>)\<rparr>) [] =
     Inl IndexOutOfBounds"
  using last_row_access [of train_cli example_training memo_library "[]" 2]
    last_row_access [of "train_cli\<lparr>training := Some (2, \<lparr>n_cols = 3, rows = []\<rparr>)\<rparr>"
       "\<lparr>n_cols = 3, rows = []\<rparr>" memo_library "[]" 2]
  by (simp add: train_cli_def example_training_def)

text \<open>
  C9.  The counting of lines 201 to 203 and 234 to 236 over \<open>n\<close> columns returns
  exactly when both vectors have at least \<open>n\<close> entries.  With enough
  predictions, the report on the training set and the accuracy on the test
  set, also inside the test once the labels were read, return exactly when
  the label vector has an entry for every column; a shorter label vector is
  read outside its bounds.
\<close>

theorem accuracy_loop_bounds:
  "((\<exists>c. count_correct P L n 0 0 = Inr c) \<longleftrightarrow> n \<le> length P \<and> n \<le> length L) \<and>
   (n \<le> length P \<and> length L < n \<longrightarrow> count_correct P L n 0 0 = Inl IndexOutOfBounds) \<and>
   (Classify lib t X = Inr (P, probs) \<and> n_cols X \<le> length P \<longrightarrow>
      ((\<exists>m. training_error lib t X L = Inr m) \<longleftrightarrow> n_cols X \<le> length L) \<and>
      (length L < n_cols X \<longrightarrow> training_error lib t X L = Inl IndexOutOfBounds)) \<and>
   (n_cols T \<le> length P \<longrightarrow>
      ((\<exists>m. test_accuracy P L T = Inr m) \<longleftrightarrow> n_cols T \<le> length L) \<and>
      (length L < n_cols T \<longrightarrow> test_accuracy P L T = Inl IndexOutOfBounds)) \<and>
   (test p = Some (tinfo, T) \<and> test_labels p = Some M \<and>
    GetParam_Row_of_Mat lib M = Inr L \<and>
    Classify lib (tree model) T = Inr (P, probs) \<and> n_cols T \<le> length P \<longrightarrow>
      ((\<exists>out. test_model lib p model msgs = Inr out) \<longleftrightarrow> n_cols T \<le> length L) \<and>
      (length L < n_cols T \<longrightarrow> test_model lib p model msgs = Inl IndexOutOfBounds))"
proof -
  have loop: "count_correct P L k 0 0 =
      (if 0 = k \<or> (k \<le> length P \<and> k \<le> length L)
       then Inr (0 + length (filter (\<lambda>j. P ! j = L ! j) [0..<k]))
       else Inl IndexOutOfBounds)" for k
    by (rule count_correct_eq) simp
  have a: "(\<exists>c. count_correct P L n 0 0 = Inr c) \<longleftrightarrow> n \<le> length P \<and> n \<le> length L"
    by (auto simp: loop)
  have b: "n \<le> length P \<and> length L < n \<longrightarrow> count_correct P L n 0 0 = Inl IndexOutOfBounds"
    by (auto simp: loop)
  have c: "Classify lib t X = Inr (P, probs) \<and> n_cols X \<le> length P \<longrightarrow>
      ((\<exists>m. training_error lib t X L = Inr m) \<longleftrightarrow> n_cols X \<le> length L) \<and>
      (length L < n_cols X \<longrightarrow> training_error lib t X L = Inl IndexOutOfBounds)"
    by (auto simp: training_error_def loop)
  have d: "n_cols T \<le> length P \<longrightarrow>
      ((\<exists>m. test_accuracy P L T = Inr m) \<longleftrightarrow> n_cols T \<le> length L) \<and>
      (length L < n_cols T \<longrightarrow> test_accuracy P L T = Inl IndexOutOfBounds)"
    by (auto simp: test_accuracy_def loop)
  have e: "test p = Some (tinfo, T) \<and> test_labels p = Some M \<and>
    GetParam_Row_of_Mat lib M = Inr L \<and>
    Classify lib (tree model) T = Inr (P, probs) \<and> n_cols T \<le> length P \<longrightarrow>
      ((\<exists>out. test_model lib p model msgs = Inr out) \<longleftrightarrow> n_cols T \<le> length L) \<and>
      (length L < n_cols T \<longrightarrow> test_model lib p model msgs = Inl IndexOutOfBounds)"
    by (auto simp: test_model_def overwrite_info_def test_accuracy_def loop)
  from a b c d e show ?thesis by blast
qed

theorem accuracy_loop_bounds_witness:
  "count_correct [0, 0, 1, 1] [0, 1] 4 0 0 = Inl IndexOutOfBounds \<and>
   training_error memo_library [0, 0, 1, 1] example_training [0, 0, 1] = Inl IndexOutOfBounds \<and>
   (\<exists>m. training_error memo_library [0, 0, 1, 1] example_training [0, 0, 1, 1] = Inr m) \<and>
   test_accuracy [0, 0] [0] example_test = Inl IndexOutOfBounds \<and>
   (\<exists>m. test_accuracy [0, 0] [0, 1] example_test = Inr m) \<and>
   test_model lenient_library
      (load_cli\<lparr>test_labels := Some \<lparr>umat_n_cols = 1, umat_rows = [ [0] ]\<rparr>\<rparr>) example_model [] =
     Inl IndexOutOfBounds \<and>
   (\<exists>out. test_model lenient_library load_cli example_model [] = Inr out)"
proof -
  have c1: "Classify memo_library [0, 0, 1, 1] example_training =
      Inr ([0, 0, 1, 1], example_training\<lparr>rows := []\<rparr>)"
    by code_simp
  have n1: "n_cols example_training = 4" and n2: "n_cols example_test = 2"
    by (simp_all add: example_training_def example_test_def)
  have a: "count_correct [0, 0, 1, 1] [0, 1] 4 0 0 = Inl IndexOutOfBounds"
    using accuracy_loop_bounds [where P = "[0, 0, 1, 1]" and L = "[0, 1]" and n = 4,
        THEN conjunct2, THEN conjunct1]
    by simp
  have b: "training_error memo_library [0, 0, 1, 1] example_training [0, 0, 1] =
      Inl IndexOutOfBounds"
    using accuracy_loop_bounds [where P = "[0, 0, 1, 1]" and L = "[0, 0, 1]"
        and lib = memo_library and t = "[0, 0, 1, 1]" and X = example_training
        and probs = "example_training\<lparr>rows := []\<rparr>",
        THEN conjunct2, THEN conjunct2, THEN conjunct1] c1 n1
    by simp
  have c: "\<exists>m. training_error memo_library [0, 0, 1, 1] example_training [0, 0, 1, 1] = Inr m"
    using accuracy_loop_bounds [where P = "[0, 0, 1, 1]" and L = "[0, 0, 1, 1]"
        and lib = memo_library and t = "[0, 0, 1, 1]" and X = example_training
        and probs = "example_training\<lparr>rows := []\<rparr>",
        THEN conjunct2, THEN conjunct2, THEN conjunct1] c1 n1
    by simp
  have d: "test_accuracy [0, 0] [0] example_test = Inl IndexOutOfBounds"
    using accuracy_loop_bounds [where P = "[0, 0]" and L = "[0]" and T = example_test,
        THEN conjunct2, THEN conjunct2, THEN conjunct2, THEN conjunct1] n2
    by simp
  have e: "\<exists>m. test_accuracy [0, 0] [0, 1] example_test = Inr m"
    using accuracy_loop_bounds [where P = "[0, 0]" and L = "[0, 1]" and T = example_test,
        THEN conjunct2, THEN conjunct2, THEN conjunct2, THEN conjunct1] n2
    by simp
  let ?short = "load_cli\<lparr>test_labels := Some \<lparr>umat_n_cols = 1, umat_rows = [ [0] ]\<rparr>\<rparr>"
  have c2: "Classify lenient_library (tree example_model) example_test =
      Inr ([0, 0], example_test\<lparr>rows := []\<rparr>)"
    by code_simp
  have g: "GetParam_Row_of_Mat lenient_library \<lparr>umat_n_cols = 1, umat_rows = [ [0] ]\<rparr> = Inr [0]"
    "GetParam_Row_of_Mat lenient_library \<lparr>umat_n_cols = 2, umat_rows = [ [0, 1] ]\<rparr> = Inr [0, 1]"
    by (simp_all add: lenient_library_def)
  have t: "test ?short = Some (7, example_test)" "test load_cli = Some (7, example_test)"
    "test_labels ?short = Some \<lparr>umat_n_cols = 1, umat_rows = [ [0] ]\<rparr>"
    "test_labels load_cli = Some \<lparr>umat_n_cols = 2, umat_rows = [ [0, 1] ]\<rparr>"
    by (simp_all add: load_cli_def)
  have f: "test_model lenient_library ?short example_model [] = Inl IndexOutOfBounds"
    using accuracy_loop_bounds [where P = "[0, 0]" and L = "[0]" and T = example_test
        and p = ?short and tinfo = 7 and M = "\<lparr>umat_n_cols = 1, umat_rows = [ [0] ]\<rparr>"
        and lib = lenient_library and model = example_model
        and probs = "example_test\<lparr>rows := []\<rparr>" and msgs = "[]",
        THEN conjunct2, THEN conjunct2, THEN conjunct2, THEN conjunct2] n2 c2 g(1) t(1) t(3)
    by simp
  have h: "\<exists>out. test_model lenient_library load_cli example_model [] = Inr out"
    using accuracy_loop_bounds [where P = "[0, 0]" and L = "[0, 1]" and T = example_test
        and p = load_cli and tinfo = 7 and M = "\<lparr>umat_n_cols = 2, umat_rows = [ [0, 1] ]\<rparr>"
        and lib = lenient_library and model = example_model
        and probs = "example_test\<lparr>rows := []\<rparr>" and msgs = "[]",
        THEN conjunct2, THEN conjunct2, THEN conjunct2, THEN conjunct2] n2 c2 g(2) t(2) t(4)
    by simp
  from a b c d e f h show ?thesis by blast
qed

end
